theory Spec2Isabelle
  imports Complex_Main
begin

chapter \<open>The array proxy of \<open>nibabel.arrayproxy\<close>\<close>

text \<open>
  A shallow embedding of the class \<open>ArrayProxy\<close>: its constructor with the resolution
  of the \<open>spec\<close> argument and the keep-open decision, the handle provider
  \<open>_get_fileobj\<close> with the three reading methods, \<open>reshape\<close>, teardown and pickling.
  Methods take the proxy and the world and return their result, the proxy and the
  world; an exception is a result \<open>Inl\<close>.  The code of numpy, of the openers, of the
  reader, of the slicer and of the scaling lies outside the module and is either a
  parameter or modelled as stated where it is introduced.
\<close>

section \<open>Python values, errors and module globals\<close>

text \<open>
  The module \<open>nibabel.arrayproxy\<close> is dynamically typed: the constructor stores whatever
  the caller's tuple holds.  \<open>pyobj\<close> are the Python values that occur as constructor
  arguments and attribute values: \<open>None\<close>, booleans, integers, floats (modelled by the
  real numbers they denote; NaN and the infinities are not represented), strings, tuples
  of integers (shapes), \<open>numpy.dtype\<close> objects (identified by their canonical name) and
  references to mutable objects (a numpy array, a list), whose current value is in the
  store \<open>cells\<close> of the world.  Binding such an object to an attribute binds the
  reference: Python copies nothing.
  \<open>py_eq\<close> is Python's \<open>==\<close> on them (\<open>1 == True\<close>, \<open>0 == False\<close> and \<open>1 == 1.0\<close>
  hold in Python), \<open>py_in\<close> is the \<open>in\<close> test on a tuple and \<open>truthy\<close> is the truth
  value used by \<open>if\<close>.  The comparison of a dtype object with a string, for which numpy
  constructs a dtype from the string, is not modelled: a dtype object equals dtype
  objects only.  A mutable object is equal to none of the flags and has no use as a
  truth value, since a flag has passed its membership test before it is stored.
\<close>

datatype pyobj =
    PNone
  | PBool bool
  | PInt int
  | PFloat real
  | PStr string
  | PShape "int list"
  | PDtype string
  | PRef nat

fun py_eq :: "pyobj \<Rightarrow> pyobj \<Rightarrow> bool" where
  "py_eq PNone PNone = True"
| "py_eq (PBool a) (PBool b) = (a = b)"
| "py_eq (PInt i) (PInt j) = (i = j)"
| "py_eq (PFloat x) (PFloat y) = (x = y)"
| "py_eq (PStr s) (PStr t) = (s = t)"
| "py_eq (PShape xs) (PShape ys) = (xs = ys)"
| "py_eq (PDtype d) (PDtype e) = (d = e)"
| "py_eq (PBool a) (PInt j) = ((if a then 1 else 0) = j)"
| "py_eq (PInt i) (PBool b) = (i = (if b then 1 else 0))"
| "py_eq (PBool a) (PFloat y) = ((if a then 1 else 0) = y)"
| "py_eq (PFloat x) (PBool b) = (x = (if b then 1 else 0))"
| "py_eq (PInt i) (PFloat y) = (of_int i = y)"
| "py_eq (PFloat x) (PInt j) = (x = of_int j)"
| "py_eq _ _ = False"

fun py_in :: "pyobj \<Rightarrow> pyobj list \<Rightarrow> bool" where
  "py_in v [] = False"
| "py_in v (x # xs) = (py_eq v x \<or> py_in v xs)"

fun truthy :: "pyobj \<Rightarrow> bool" where
  "truthy PNone = False"
| "truthy (PBool b) = b"
| "truthy (PInt i) = (i \<noteq> 0)"
| "truthy (PFloat x) = (x \<noteq> 0)"
| "truthy (PStr s) = (s \<noteq> [])"
| "truthy (PShape xs) = (xs \<noteq> [])"
| "truthy (PDtype d) = True"
| "truthy (PRef a) = True"

text \<open>\<open>str.endswith\<close>.\<close>

definition endswith :: "string \<Rightarrow> string \<Rightarrow> bool" where
  "endswith s suf = (length suf \<le> length s \<and> drop (length s - length suf) s = suf)"

text \<open>
  Exceptions are values.  Each constructor is the Python exception class; the string is
  the message of the \<open>raise\<close> statement, without its quotation marks and formatted
  numbers (for an attribute error, the attribute).  \<open>IOError\<close> stands for a failure of
  a collaborator that performs input or output.  \<open>Unmodelled\<close> is not an exception of
  the program: it marks a run that reaches a behaviour of numpy which the model does not
  represent, and nothing is stated of such a run.
\<close>

datatype error =
    ValueError string
  | TypeError string
  | AttributeError string
  | IOError
  | Unmodelled string

text \<open>
  \<open>file_like\<close> is either a file name or a file object.  A file object is identified by a
  number and records whether it has the attributes \<open>read\<close> and \<open>seek\<close>, which is all that
  \<open>hasattr\<close> asks of it.
\<close>

datatype file_like = Filename string | FileObj nat bool bool

fun hasattr_read :: "file_like \<Rightarrow> bool" where
  "hasattr_read (Filename s) = False"
| "hasattr_read (FileObj i r s) = r"

fun hasattr_seek :: "file_like \<Rightarrow> bool" where
  "hasattr_seek (Filename s) = False"
| "hasattr_seek (FileObj i r s) = s"

text \<open>
  The module globals read by the class: \<open>KEEP_FILE_OPEN_DEFAULT\<close> of this module (a
  flag that callers may reassign) and \<open>openers.HAVE_INDEXED_GZIP\<close>.  The value the
  module itself assigns is \<open>False\<close>.
\<close>

record globals =
  KEEP_FILE_OPEN_DEFAULT :: pyobj
  HAVE_INDEXED_GZIP :: bool

definition module_globals :: "bool \<Rightarrow> globals" where
  "module_globals have_igzip =
     \<lparr>KEEP_FILE_OPEN_DEFAULT = PBool False, HAVE_INDEXED_GZIP = have_igzip\<rparr>"

section \<open>The keep-open decision\<close>

text \<open>
  \<open>ArrayProxy._should_keep_file_open\<close>.  The conjunction
  \<open>openers.HAVE_INDEXED_GZIP and file_like.endswith('.gz')\<close> evaluates its second
  operand only when the first is true; on a file object without \<open>endswith\<close> that
  evaluation raises \<open>AttributeError\<close>.
\<close>

definition should_keep_file_open :: "globals \<Rightarrow> file_like \<Rightarrow> pyobj \<Rightarrow> error + pyobj" where
  "should_keep_file_open g fl kfo =
     (let keep_file_open = (if kfo = PNone then KEEP_FILE_OPEN_DEFAULT g else kfo) in
      if \<not> py_in keep_file_open [PStr ''auto'', PBool True, PBool False]
      then Inl (ValueError ''keep_file_open should be one of {None, auto, True, False}'')
      else if hasattr_read fl \<and> hasattr_seek fl then Inr (PBool False)
      else if py_eq keep_file_open (PStr ''auto'') then
        (if \<not> HAVE_INDEXED_GZIP g then Inr (PBool False)
         else (case fl of
                 Filename s \<Rightarrow>
                   if endswith s ''.gz'' then Inr keep_file_open else Inr (PBool False)
               | FileObj i r sk \<Rightarrow> Inl (AttributeError ''endswith'')))
      else Inr keep_file_open)"

text \<open>
  The two behaviours of the handle provider; \<open>_get_fileobj\<close> selects between them by the
  truth value of the stored flag.
\<close>

datatype HandlePolicy = AlwaysOpenFresh | KeepOpenPersistent

definition policy_of :: "pyobj \<Rightarrow> HandlePolicy" where
  "policy_of k = (if truthy k then KeepOpenPersistent else AlwaysOpenFresh)"

section \<open>Objects outside the proxy\<close>

text \<open>
  Modelled from the spec: the header (descriptor) object, whose class is not part of
  this module.  The four accessors \<open>get_data_shape\<close>, \<open>get_data_dtype\<close>,
  \<open>get_data_offset\<close> and \<open>get_slope_inter\<close> report the fields below (slope and
  intercept may be \<open>None\<close>), and \<open>copy\<close> gives a detached descriptor.  Headers are
  mutable objects that the caller keeps a reference to, so they live in a store: a
  reference is an index into the list \<open>headers\<close> of the world.
\<close>

record header =
  hdr_shape :: pyobj
  hdr_dtype :: pyobj
  hdr_offset :: pyobj
  hdr_slope :: pyobj
  hdr_inter :: pyobj

text \<open>
  An \<open>ImageOpener\<close> object: the source it is bound to, the \<open>keep_open\<close> argument it was
  created with (\<open>None\<close> when the argument was not passed) and whether it is closed.
\<close>

record opener =
  op_source :: file_like
  op_keep_open :: "pyobj option"
  op_closed :: bool

text \<open>What happened to handles and to locks, in program order.\<close>

datatype event =
    Opened nat
  | Closed nat
  | Acquired nat
  | Released nat
  | ReadFrom "nat option"
  | SliceFrom "nat option" nat

text \<open>
  The world outside the proxy: the store of headers, the store of mutable objects that
  \<open>PRef\<close> refers to, every \<open>ImageOpener\<close> created so far (an opener is identified by its
  index), the number of \<open>RLock\<close> objects created so far (a lock is identified by its
  number) and the trace of events.  \<open>deref\<close> is the current value of an object.
\<close>

record world =
  headers :: "header list"
  cells :: "pyobj list"
  openers :: "opener list"
  locks :: nat
  trace :: "event list"

definition deref :: "world \<Rightarrow> pyobj \<Rightarrow> pyobj" where
  "deref w v =
     (case v of
        PRef a \<Rightarrow> if a < length (cells w) then cells w ! a else PNone
      | _ \<Rightarrow> v)"

text \<open>
  The collaborators the module calls and whose code lies outside it are parameters:
  which dtype a specifier denotes for \<open>numpy.dtype\<close> (\<open>None\<close>: not understood), whether
  opening a source succeeds, the raw reader \<open>volumeutils.array_from_file\<close>, the slicer
  \<open>fileslice.fileslice\<close> and \<open>volumeutils.apply_read_scaling\<close>.  The reader and the
  slicer receive the file object that \<open>_get_fileobj\<close> yields (\<open>None\<close> for Python's
  \<open>None\<close>) as the opener's record, and every other argument by its current value;
  \<open>'a\<close> is the type of arrays, \<open>'s\<close> of slice specifications.
\<close>

record ('a, 's) collab =
  dtype_of :: "pyobj \<Rightarrow> string option"
  can_open :: "file_like \<Rightarrow> bool"
  array_from_file ::
    "pyobj \<Rightarrow> pyobj \<Rightarrow> opener option \<Rightarrow> pyobj \<Rightarrow> string \<Rightarrow> pyobj \<Rightarrow> error + 'a"
  fileslice ::
    "opener option \<Rightarrow> 's \<Rightarrow> pyobj \<Rightarrow> pyobj \<Rightarrow> pyobj \<Rightarrow> string \<Rightarrow> error + 'a"
  apply_read_scaling :: "'a \<Rightarrow> pyobj \<Rightarrow> pyobj \<Rightarrow> 'a"

text \<open>
  \<open>numpy.dtype(x)\<close>: a dtype object is returned as it is, any other specifier is looked
  up, and numpy raises \<open>TypeError\<close> for a specifier it does not understand.  The result
  is a new dtype object; specifiers are immutable values.
\<close>

definition np_dtype :: "('a, 's) collab \<Rightarrow> pyobj \<Rightarrow> error + pyobj" where
  "np_dtype c x =
     (case x of
        PDtype d \<Rightarrow> Inr (PDtype d)
      | _ \<Rightarrow> (case dtype_of c x of
                Some d \<Rightarrow> Inr (PDtype d)
              | None \<Rightarrow> Inl (TypeError ''data type not understood'')))"

text \<open>
  Modelled from the spec: the opener collaborator (module \<open>openers\<close>), of which the
  spec gives the interface \<open>open(source, keep_open) -> handle\<close>, \<open>close_if_owned()\<close> and a
  closed status.  Opening yields a new handle bound to the source or fails.  The only
  close that the handle offers respects ownership: \<open>close_if_mine\<close> closes the handle
  when the opener itself opened the file, that is when the source was a name, and
  leaves alone a file object that the caller handed in.  Leaving the scope of a \<open>with\<close>
  statement releases the handle through that same close.  A reference always denotes
  an opener; for a number that denotes none the operations leave the world as it is.
\<close>

definition ImageOpener ::
  "('a, 's) collab \<Rightarrow> file_like \<Rightarrow> pyobj option \<Rightarrow> world \<Rightarrow> error + (nat \<times> world)" where
  "ImageOpener c fl keep w =
     (if can_open c fl
      then Inr (length (openers w),
                w\<lparr>openers := openers w @ [\<lparr>op_source = fl, op_keep_open = keep, op_closed = False\<rparr>],
                  trace := trace w @ [Opened (length (openers w))]\<rparr>)
      else Inl IOError)"

definition opener_at :: "world \<Rightarrow> nat \<Rightarrow> opener option" where
  "opener_at w h = (if h < length (openers w) then Some (openers w ! h) else None)"

definition set_closed :: "nat \<Rightarrow> world \<Rightarrow> world" where
  "set_closed h w =
     (case opener_at w h of
        None \<Rightarrow> w
      | Some ob \<Rightarrow> w\<lparr>openers := (openers w)[h := ob\<lparr>op_closed := True\<rparr>],
                    trace := trace w @ [Closed h]\<rparr>)"

definition is_mine :: "opener \<Rightarrow> bool" where
  "is_mine ob = (case op_source ob of Filename s \<Rightarrow> True | FileObj i r sk \<Rightarrow> False)"

definition close_if_mine :: "nat \<Rightarrow> world \<Rightarrow> world" where
  "close_if_mine h w =
     (case opener_at w h of
        None \<Rightarrow> w
      | Some ob \<Rightarrow> if is_mine ob then set_closed h w else w)"

definition opener_exit :: "nat \<Rightarrow> world \<Rightarrow> world" where
  "opener_exit h w = close_if_mine h w"

definition closed :: "world \<Rightarrow> nat \<Rightarrow> bool" where
  "closed w h = (case opener_at w h of None \<Rightarrow> True | Some ob \<Rightarrow> op_closed ob)"

text \<open>\<open>threading.RLock()\<close> and the entry and exit of \<open>with lock\<close>.\<close>

definition RLock :: "world \<Rightarrow> nat \<times> world" where
  "RLock w = (locks w, w\<lparr>locks := Suc (locks w)\<rparr>)"

definition acquire :: "nat \<Rightarrow> world \<Rightarrow> world" where
  "acquire l w = w\<lparr>trace := trace w @ [Acquired l]\<rparr>"

definition release :: "nat \<Rightarrow> world \<Rightarrow> world" where
  "release l w = w\<lparr>trace := trace w @ [Released l]\<rparr>"

section \<open>The proxy and its constructor\<close>

text \<open>
  The instance dictionary of an \<open>ArrayProxy\<close>.  \<open>__init__\<close> sets every attribute except
  \<open>_header\<close> (set only for a header spec; the class attribute \<open>_header = None\<close> is read
  otherwise) and \<open>_opener\<close> (set by \<open>_get_fileobj\<close>, assigned \<open>None\<close> by \<open>__del__\<close>).
  \<open>self_lock = None\<close> is a dictionary without the key \<open>_lock\<close>, as \<open>__getstate__\<close>
  returns it.
\<close>

datatype opener_attr = NoAttr | IsNone | OpenerRef nat

record ArrayProxy =
  file_like :: file_like
  self_header :: "nat option"
  self_shape :: pyobj
  self_dtype :: pyobj
  self_offset :: pyobj
  self_slope :: pyobj
  self_inter :: pyobj
  self_mmap :: pyobj
  self_keep_file_open :: pyobj
  self_opener :: opener_attr
  self_lock :: "nat option"

text \<open>
  The \<open>spec\<close> argument: a tuple, or a reference to a header object (the object for
  which \<open>hasattr(spec, 'get_data_shape')\<close> holds).
\<close>

datatype spec = SpecTuple "pyobj list" | SpecHeader nat

text \<open>
  Modelled from the spec: \<open>spec.copy()\<close> is a new header object, detached from the
  original, with the fields of the original.  What the copy does to a mutable object
  that a field refers to is not specified: the copy of the model refers to the same
  object.  No read uses the copy.
\<close>

definition header_copy :: "header \<Rightarrow> world \<Rightarrow> nat \<times> world" where
  "header_copy hdr w = (length (headers w), w\<lparr>headers := headers w @ [hdr]\<rparr>)"

text \<open>
  Lines 143 to 156 of \<open>__init__\<close>: the five parameters and, for a header, the reference
  to its copy.  A reference that denotes no header object is not a header
  and has no length.
\<close>

definition spec_par ::
  "spec \<Rightarrow> world \<Rightarrow> (error + (pyobj list \<times> nat option)) \<times> world" where
  "spec_par sp w =
     (case sp of
        SpecHeader a \<Rightarrow>
          (if a < length (headers w) then
             (let src = headers w ! a;
                  slope_v = hdr_slope src;
                  inter_v = hdr_inter src;
                  par = [hdr_shape src, hdr_dtype src, hdr_offset src,
                         (if slope_v = PNone then PFloat 1 else slope_v),
                         (if inter_v = PNone then PFloat 0 else inter_v)];
                  (r, w1) = header_copy src w
              in (Inr (par, Some r), w1))
           else (Inl (TypeError ''spec must be tuple of length 2-5 or header object''), w))
      | SpecTuple t \<Rightarrow>
          (if 2 \<le> length t \<and> length t \<le> 5 then
             (let optional = [PInt 0, PFloat 1, PFloat 0];
                  par = t @ drop (length t - 2) optional
              in (Inr (par, None), w))
           else (Inl (TypeError ''spec must be tuple of length 2-5 or header object''), w)))"

text \<open>
  \<open>ArrayProxy.__init__\<close>.  An exception leaves the world as the statements before it
  made it.  The unpacking of \<open>par\<close> raises \<open>ValueError\<close> unless it has five elements.
\<close>

definition ArrayProxy_init ::
  "globals \<Rightarrow> ('a, 's) collab \<Rightarrow> file_like \<Rightarrow> spec \<Rightarrow> pyobj \<Rightarrow> pyobj \<Rightarrow> world
     \<Rightarrow> (error + ArrayProxy) \<times> world" where
  "ArrayProxy_init g c fl sp mmap keep_file_open w =
     (if \<not> py_in mmap [PBool True, PBool False, PStr ''c'', PStr ''r'']
      then (Inl (ValueError ''mmap should be one of {True, False, c, r}''), w)
      else
        (case spec_par sp w of
           (Inl e, w1) \<Rightarrow> (Inl e, w1)
         | (Inr (par, cp), w1) \<Rightarrow>
             (case par of
                [shape_v, dtype_v, offset_v, slope_v, inter_v] \<Rightarrow>
                  (case np_dtype c dtype_v of
                     Inl e \<Rightarrow> (Inl e, w1)
                   | Inr dt \<Rightarrow>
                       (case should_keep_file_open g fl keep_file_open of
                          Inl e \<Rightarrow> (Inl e, w1)
                        | Inr k \<Rightarrow>
                            (let (l, w2) = RLock w1
                             in (Inr \<lparr>file_like = fl, self_header = cp, self_shape = shape_v,
                                      self_dtype = dt, self_offset = offset_v,
                                      self_slope = slope_v, self_inter = inter_v,
                                      self_mmap = mmap, self_keep_file_open = k,
                                      self_opener = NoAttr, self_lock = Some l\<rparr>, w2))))
              | _ \<Rightarrow> (Inl (ValueError ''wrong number of values to unpack''), w1))))"

section \<open>Teardown and pickling\<close>

text \<open>
  \<open>ArrayProxy.__del__\<close>.  \<open>hasattr(self, '_opener')\<close> holds as soon as the attribute
  exists, also when its value is \<open>None\<close>; then \<open>self._opener.closed\<close> raises
  \<open>AttributeError\<close>.
\<close>

definition ArrayProxy_del ::
  "ArrayProxy \<Rightarrow> world \<Rightarrow> error option \<times> ArrayProxy \<times> world" where
  "ArrayProxy_del self w =
     (case self_opener self of
        NoAttr \<Rightarrow> (None, self, w)
      | IsNone \<Rightarrow> (Some (AttributeError ''closed''), self, w)
      | OpenerRef h \<Rightarrow>
          if \<not> closed w h
          then (None, self\<lparr>self_opener := IsNone\<rparr>, close_if_mine h w)
          else (None, self, w))"

text \<open>
  \<open>ArrayProxy.__getstate__\<close>: a copy of the instance dictionary from which the key
  \<open>_lock\<close> is popped.
\<close>

definition getstate :: "ArrayProxy \<Rightarrow> ArrayProxy" where
  "getstate self = self\<lparr>self_lock := None\<rparr>"

text \<open>
  \<open>dict.update\<close> on instance dictionaries: every key of \<open>state\<close> overwrites the
  receiver's.  The attributes that \<open>__init__\<close> always sets are keys of every state.
\<close>

definition dict_update :: "ArrayProxy \<Rightarrow> ArrayProxy \<Rightarrow> ArrayProxy" where
  "dict_update self state =
     state\<lparr>self_header := (case self_header state of None \<Rightarrow> self_header self | Some a \<Rightarrow> Some a),
           self_opener := (case self_opener state of NoAttr \<Rightarrow> self_opener self | IsNone \<Rightarrow> IsNone
                           | OpenerRef h \<Rightarrow> OpenerRef h),
           self_lock := (case self_lock state of None \<Rightarrow> self_lock self | Some l \<Rightarrow> Some l)\<rparr>"

text \<open>\<open>ArrayProxy.__setstate__\<close>.\<close>

definition setstate :: "ArrayProxy \<Rightarrow> ArrayProxy \<Rightarrow> world \<Rightarrow> ArrayProxy \<times> world" where
  "setstate self state w =
     (let self1 = dict_update self state;
          (l, w1) = RLock w
      in (self1\<lparr>self_lock := Some l\<rparr>, w1))"

section \<open>The handle provider and the reads\<close>

text \<open>
  \<open>ArrayProxy._get_fileobj\<close> is a context manager; \<open>body\<close> is the block of the \<open>with\<close>
  statement that uses it, given the yielded file object.  In the keep-open branch the
  attribute is assigned once the \<open>ImageOpener\<close> call has returned, before the \<open>yield\<close>.
  In the other branch the inner \<open>with\<close> leaves the opener's scope, and so calls its
  exit, whether the body returned or raised.
\<close>

definition get_fileobj ::
  "('a, 's) collab \<Rightarrow> ArrayProxy \<Rightarrow> world
     \<Rightarrow> (nat option \<Rightarrow> world \<Rightarrow> (error + 'r) \<times> world)
     \<Rightarrow> (error + 'r) \<times> ArrayProxy \<times> world" where
  "get_fileobj c self w body =
     (if truthy (self_keep_file_open self) then
        (case self_opener self of
           NoAttr \<Rightarrow>
             (case ImageOpener c (file_like self) (Some (self_keep_file_open self)) w of
                Inl e \<Rightarrow> (Inl e, self, w)
              | Inr (h, w1) \<Rightarrow>
                  (let (r, w2) = body (Some h) w1
                   in (r, self\<lparr>self_opener := OpenerRef h\<rparr>, w2)))
         | IsNone \<Rightarrow> (let (r, w1) = body None w in (r, self, w1))
         | OpenerRef h \<Rightarrow> (let (r, w1) = body (Some h) w in (r, self, w1)))
      else
        (case ImageOpener c (file_like self) None w of
           Inl e \<Rightarrow> (Inl e, self, w)
         | Inr (h, w1) \<Rightarrow>
             (let (r, w2) = body (Some h) w1
              in (r, self, opener_exit h w2))))"

definition fileobj_of :: "world \<Rightarrow> nat option \<Rightarrow> opener option" where
  "fileobj_of w fo = (case fo of None \<Rightarrow> None | Some h \<Rightarrow> opener_at w h)"

text \<open>
  \<open>ArrayProxy.get_unscaled\<close>: \<open>with self._get_fileobj() as fileobj, self._lock\<close> enters
  the handle provider first and the lock second, and leaves them in the opposite order.
\<close>

definition get_unscaled ::
  "('a, 's) collab \<Rightarrow> ArrayProxy \<Rightarrow> world \<Rightarrow> (error + 'a) \<times> ArrayProxy \<times> world" where
  "get_unscaled c self w =
     get_fileobj c self w
       (\<lambda>fileobj w1.
          case self_lock self of
            None \<Rightarrow> (Inl (AttributeError ''_lock''), w1)
          | Some l \<Rightarrow>
              (let w2 = acquire l w1;
                   raw_data = array_from_file c (deref w2 (self_shape self))
                                (deref w2 (self_dtype self)) (fileobj_of w2 fileobj)
                                (deref w2 (self_offset self)) ''F'' (deref w2 (self_mmap self));
                   w3 = w2\<lparr>trace := trace w2 @ [ReadFrom fileobj]\<rparr>
               in (raw_data, release l w3)))"

text \<open>
  \<open>ArrayProxy.__array__\<close>.  The scaling receives the objects that \<open>_slope\<close> and
  \<open>_inter\<close> are bound to, with the values they have at that moment.
\<close>

definition ArrayProxy_array ::
  "('a, 's) collab \<Rightarrow> ArrayProxy \<Rightarrow> world \<Rightarrow> (error + 'a) \<times> ArrayProxy \<times> world" where
  "ArrayProxy_array c self w =
     (case get_unscaled c self w of
        (Inl e, self1, w1) \<Rightarrow> (Inl e, self1, w1)
      | (Inr raw_data, self1, w1) \<Rightarrow>
          (Inr (apply_read_scaling c raw_data (deref w1 (self_slope self))
                  (deref w1 (self_inter self))), self1, w1))"

text \<open>
  \<open>ArrayProxy.__getitem__\<close>: the lock is not taken here but handed to the slicer.
  \<open>getitem_unscaled\<close> is its \<open>with\<close> statement (lines 297 to 304), which gives the raw
  slice; the scaling follows.
\<close>

definition getitem_unscaled ::
  "('a, 's) collab \<Rightarrow> ArrayProxy \<Rightarrow> 's \<Rightarrow> world \<Rightarrow> (error + 'a) \<times> ArrayProxy \<times> world" where
  "getitem_unscaled c self slicer w =
     get_fileobj c self w
       (\<lambda>fileobj w1.
          case self_lock self of
            None \<Rightarrow> (Inl (AttributeError ''_lock''), w1)
          | Some l \<Rightarrow>
              (fileslice c (fileobj_of w1 fileobj) slicer (deref w1 (self_shape self))
                 (deref w1 (self_dtype self)) (deref w1 (self_offset self)) ''F'',
               w1\<lparr>trace := trace w1 @ [SliceFrom fileobj l]\<rparr>))"

definition ArrayProxy_getitem ::
  "('a, 's) collab \<Rightarrow> ArrayProxy \<Rightarrow> 's \<Rightarrow> world \<Rightarrow> (error + 'a) \<times> ArrayProxy \<times> world" where
  "ArrayProxy_getitem c self slicer w =
     (case getitem_unscaled c self slicer w of
        (Inl e, self1, w1) \<Rightarrow> (Inl e, self1, w1)
      | (Inr raw_data, self1, w1) \<Rightarrow>
          (Inr (apply_read_scaling c raw_data (deref w1 (self_slope self))
                  (deref w1 (self_inter self))), self1, w1))"

section \<open>The scaling\<close>

text \<open>
  Modelled from the spec: \<open>volumeutils.apply_read_scaling\<close>, which is not part of this
  module.  The spec (4.5) gives \<open>out = raw * slope + inter\<close> element-wise, and the raw
  array returned without transformation if \<open>slope == 1.0 and inter == 0.0\<close>.  An array
  is the list of the numbers that its elements denote; the width and the rounding of
  floating types are not represented.
\<close>

definition apply_read_scaling_spec :: "real list \<Rightarrow> real \<Rightarrow> real \<Rightarrow> real list" where
  "apply_read_scaling_spec raw slope_v inter_v =
     (if slope_v = 1 \<and> inter_v = 0 then raw else map (\<lambda>x. x * slope_v + inter_v) raw)"

text \<open>The number that a Python value denotes, if it is a float or an integer.\<close>

definition num_of :: "pyobj \<Rightarrow> real option" where
  "num_of v = (case v of PFloat x \<Rightarrow> Some x | PInt i \<Rightarrow> Some (of_int i) | _ \<Rightarrow> None)"

text \<open>The scaling of the collaborators is the one of the spec.\<close>

definition scales_as_spec :: "(real list, 's) collab \<Rightarrow> bool" where
  "scales_as_spec c =
     (\<forall>raw sl it s i. num_of sl = Some s \<and> num_of it = Some i \<longrightarrow>
        apply_read_scaling c raw sl it = apply_read_scaling_spec raw s i)"

section \<open>Reshape\<close>

text \<open>
  numpy computes with fixed-width integers: the product of a tuple of Python integers
  that each fit in 64 bits is a signed 64-bit integer that wraps around.  \<open>fits64\<close> is
  the range of such an integer and \<open>wrap64\<close> the value that an exact result wraps to.
  A numpy scalar is an integer of that kind or a float.
\<close>

definition fits64 :: "int \<Rightarrow> bool" where
  "fits64 n = (- (2 ^ 63) \<le> n \<and> n < 2 ^ 63)"

definition wrap64 :: "int \<Rightarrow> int" where
  "wrap64 n = (n + 2 ^ 63) mod 2 ^ 64 - 2 ^ 63"

datatype npnum = NpInt int | NpFloat real

text \<open>
  \<open>numpy.prod\<close>: of the empty tuple it is the float \<open>1.0\<close>, of a non-empty tuple of
  integers that fit in 64 bits their wrapped product, of a single such integer that
  integer.  Integers beyond 64 bits and other values are not modelled.
\<close>

definition np_prod :: "pyobj \<Rightarrow> error + npnum" where
  "np_prod x =
     (case x of
        PShape xs \<Rightarrow>
          if xs = [] then Inr (NpFloat 1)
          else if list_all fits64 xs then Inr (NpInt (wrap64 (prod_list xs)))
          else Inl (Unmodelled ''numpy.prod of integers beyond 64 bits'')
      | PInt i \<Rightarrow>
          if fits64 i then Inr (NpInt i)
          else Inl (Unmodelled ''numpy.prod of integers beyond 64 bits'')
      | _ \<Rightarrow> Inl (Unmodelled ''numpy.prod of a value that is not a tuple of integers''))"

text \<open>\<open>==\<close> on numpy scalars compares the numbers.\<close>

fun np_eq :: "npnum \<Rightarrow> npnum \<Rightarrow> bool" where
  "np_eq (NpInt i) (NpInt j) = (i = j)"
| "np_eq (NpInt i) (NpFloat y) = (of_int i = y)"
| "np_eq (NpFloat x) (NpInt j) = (x = of_int j)"
| "np_eq (NpFloat x) (NpFloat y) = (x = y)"

text \<open>
  \<open>size // known_size\<close>, where \<open>known_size\<close> is a Python integer.  On a numpy integer
  and an integer that fits in 64 bits it is the floor division of numpy, which wraps
  and which yields zero for a zero divisor, as \<open>div\<close> does.  On a float it is a float,
  which a shape of integers cannot hold: not modelled, as is a divisor beyond 64 bits.
\<close>

definition floor_divide :: "npnum \<Rightarrow> int \<Rightarrow> error + int" where
  "floor_divide size_v known_size =
     (case size_v of
        NpInt n \<Rightarrow>
          if fits64 known_size then Inr (wrap64 (n div known_size))
          else Inl (Unmodelled ''numpy integer divided by an integer beyond 64 bits'')
      | NpFloat r \<Rightarrow> Inl (Unmodelled ''float floor division''))"

text \<open>
  \<open>ArrayProxy.reshape\<close>.  \<open>reduce(mul, shape, -1)\<close> is a left fold over Python
  integers that starts from \<open>-1\<close>.  The new proxy is made by the constructor, called
  without \<open>keep_file_open\<close>, from the new shape and the objects that the other four
  attributes are bound to.
\<close>

definition reshape ::
  "globals \<Rightarrow> ('a, 's) collab \<Rightarrow> ArrayProxy \<Rightarrow> int list \<Rightarrow> world
     \<Rightarrow> (error + ArrayProxy) \<times> world" where
  "reshape g c self shape w =
     (case np_prod (deref w (self_shape self)) of
        Inl e \<Rightarrow> (Inl e, w)
      | Inr size_v \<Rightarrow>
          (let n_unknowns = length (filter (\<lambda>e. e = - 1) shape) in
           if n_unknowns > 1
           then (Inl (ValueError ''can only specify one unknown dimension''), w)
           else
             (case (if n_unknowns = 1 then
                      (let known_size = foldl (*) (- 1) shape in
                       case floor_divide size_v known_size of
                         Inl e \<Rightarrow> Inl e
                       | Inr unknown_size \<Rightarrow>
                           Inr (map (\<lambda>e. if e = - 1 then unknown_size else e) shape))
                    else Inr shape) of
                Inl e \<Rightarrow> (Inl e, w)
              | Inr shape1 \<Rightarrow>
                  (case np_prod (PShape shape1) of
                     Inl e \<Rightarrow> (Inl e, w)
                   | Inr count \<Rightarrow>
                       if \<not> np_eq count size_v
                       then (Inl (ValueError ''cannot reshape array''), w)
                       else ArrayProxy_init g c (file_like self)
                              (SpecTuple [PShape shape1, self_dtype self, self_offset self,
                                          self_slope self, self_inter self])
                              (self_mmap self) PNone w))))"

section \<open>Notions used to state the properties\<close>

text \<open>
  The mode that the decision works with, after \<open>None\<close> has been replaced by the
  module default.
\<close>

definition requested :: "globals \<Rightarrow> pyobj \<Rightarrow> pyobj" where
  "requested g kfo = (if kfo = PNone then KEEP_FILE_OPEN_DEFAULT g else kfo)"

text \<open>An open stream exposes \<open>read\<close> and \<open>seek\<close>; anything else is taken for a name.\<close>

definition is_open_stream :: "file_like \<Rightarrow> bool" where
  "is_open_stream fl = (hasattr_read fl \<and> hasattr_seek fl)"

definition is_filename :: "file_like \<Rightarrow> bool" where
  "is_filename fl = (case fl of Filename s \<Rightarrow> True | FileObj i r sk \<Rightarrow> False)"

text \<open>
  Indexed random access is available for a source: \<open>indexed_gzip\<close> is present and the
  name ends in \<open>.gz\<close>.
\<close>

definition indexed_access :: "globals \<Rightarrow> file_like \<Rightarrow> bool" where
  "indexed_access g fl =
     (HAVE_INDEXED_GZIP g \<and>
      (case fl of Filename s \<Rightarrow> endswith s ''.gz'' | FileObj i r sk \<Rightarrow> False))"

text \<open>
  A read operation is a call of one of the three reading methods; \<open>reads\<close> performs a
  sequence of them on the same proxy, one after the other, whatever each one returns.
\<close>

datatype 's read_op = GetUnscaled | Array | GetItem 's

definition read ::
  "('a, 's) collab \<Rightarrow> ArrayProxy \<Rightarrow> 's read_op \<Rightarrow> world \<Rightarrow> (error + 'a) \<times> ArrayProxy \<times> world" where
  "read c self rop w =
     (case rop of
        GetUnscaled \<Rightarrow> get_unscaled c self w
      | Array \<Rightarrow> ArrayProxy_array c self w
      | GetItem slicer \<Rightarrow> ArrayProxy_getitem c self slicer w)"

fun reads ::
  "('a, 's) collab \<Rightarrow> ArrayProxy \<Rightarrow> 's read_op list \<Rightarrow> world
     \<Rightarrow> (error + 'a) list \<times> ArrayProxy \<times> world" where
  "reads c self [] w = ([], self, w)"
| "reads c self (rop # rops) w =
     (case read c self rop w of
        (r, self1, w1) \<Rightarrow>
          (case reads c self1 rops w1 of
             (rs, self2, w2) \<Rightarrow> (r # rs, self2, w2)))"

text \<open>
  Counting in a trace: handles opened, handles closed, and the file objects that reads
  and slice reads were given.
\<close>

definition opens_in :: "event list \<Rightarrow> nat" where
  "opens_in evs = length (filter (\<lambda>e. case e of Opened h \<Rightarrow> True | _ \<Rightarrow> False) evs)"

definition closes_in :: "event list \<Rightarrow> nat" where
  "closes_in evs = length (filter (\<lambda>e. case e of Closed h \<Rightarrow> True | _ \<Rightarrow> False) evs)"

definition read_handles :: "event list \<Rightarrow> nat option list" where
  "read_handles evs =
     concat (map (\<lambda>e. case e of ReadFrom fo \<Rightarrow> [fo] | SliceFrom fo l \<Rightarrow> [fo] | _ \<Rightarrow> []) evs)"

text \<open>
  Events that open nothing, close nothing and read from handle \<open>h\<close> only.
\<close>

definition quiet_on :: "nat \<Rightarrow> event list \<Rightarrow> bool" where
  "quiet_on h evs = (opens_in evs = 0 \<and> closes_in evs = 0 \<and> set (read_handles evs) \<subseteq> {Some h})"

text \<open>
  The events of the block of one read operation on the file object \<open>fo\<close> (none when
  the attribute \<open>_lock\<close> is missing and the block raises before it reads), and of a
  sequence of reads.
\<close>

definition read_events :: "ArrayProxy \<Rightarrow> 's read_op \<Rightarrow> nat option \<Rightarrow> event list" where
  "read_events self rop fo =
     (case self_lock self of
        None \<Rightarrow> []
      | Some l \<Rightarrow>
          (case rop of
             GetItem slicer \<Rightarrow> [SliceFrom fo l]
           | _ \<Rightarrow> [Acquired l, ReadFrom fo, Released l]))"

text \<open>The opener that \<open>ImageOpener\<close> creates.\<close>

definition new_opener :: "file_like \<Rightarrow> pyobj option \<Rightarrow> opener" where
  "new_opener fl keep = \<lparr>op_source = fl, op_keep_open = keep, op_closed = False\<rparr>"

fun reads_events :: "ArrayProxy \<Rightarrow> 's read_op list \<Rightarrow> nat option \<Rightarrow> event list" where
  "reads_events self [] fo = []"
| "reads_events self (rop # rops) fo = read_events self rop fo @ reads_events self rops fo"

text \<open>
  \<open>__del__\<close> called \<open>n\<close> times on the same proxy (an exception raised by a call is
  discarded, as the interpreter does for a finalizer).
\<close>

fun teardowns :: "nat \<Rightarrow> ArrayProxy \<Rightarrow> world \<Rightarrow> ArrayProxy \<times> world" where
  "teardowns 0 self w = (self, w)"
| "teardowns (Suc n) self w =
     (case ArrayProxy_del self w of (e, self1, w1) \<Rightarrow> teardowns n self1 w1)"

text \<open>
  \<open>object.__new__(ArrayProxy)\<close>, the receiver of \<open>__setstate__\<close> when a proxy is
  unpickled: no instance attribute is set.  The attributes that every state overwrites
  hold \<open>None\<close>.
\<close>

definition object_new :: ArrayProxy where
  "object_new =
     \<lparr>file_like = Filename [], self_header = None, self_shape = PNone, self_dtype = PNone,
      self_offset = PNone, self_slope = PNone, self_inter = PNone, self_mmap = PNone,
      self_keep_file_open = PNone, self_opener = NoAttr, self_lock = None\<rparr>"

text \<open>Capturing the state of a proxy and restoring it into a new object.\<close>

definition pickle_roundtrip :: "ArrayProxy \<Rightarrow> world \<Rightarrow> ArrayProxy \<times> world" where
  "pickle_roundtrip self w = setstate object_new (getstate self) w"

text \<open>
  What the constructor establishes and no method changes: the \<open>mmap\<close> argument passed
  the membership test and the dtype is a dtype object.
\<close>

definition constructed :: "ArrayProxy \<Rightarrow> bool" where
  "constructed p =
     (py_in (self_mmap p) [PBool True, PBool False, PStr ''c'', PStr ''r'']
      \<and> (case self_dtype p of PDtype d \<Rightarrow> True | _ \<Rightarrow> False))"



text \<open>
  The caller mutates in place the object at reference \<open>a\<close>, for instance the array that
  a header holds as its slope and that its \<open>get_slope_inter\<close> returns.
\<close>

definition mutate_object :: "nat \<Rightarrow> pyobj \<Rightarrow> world \<Rightarrow> world" where
  "mutate_object a v w = w\<lparr>cells := (cells w)[a := v]\<rparr>"

text \<open>
  Every handle that the events open is opened while lock \<open>l\<close> is held; \<open>d\<close> counts how
  often the (re-entrant) lock is held before the events.
\<close>

fun opens_under_lock :: "nat \<Rightarrow> nat \<Rightarrow> event list \<Rightarrow> bool" where
  "opens_under_lock l d [] = True"
| "opens_under_lock l d (Opened h # evs) = (0 < d \<and> opens_under_lock l d evs)"
| "opens_under_lock l d (Acquired k # evs) = opens_under_lock l (if k = l then Suc d else d) evs"
| "opens_under_lock l d (Released k # evs) = opens_under_lock l (if k = l then d - 1 else d) evs"
| "opens_under_lock l d (e # evs) = opens_under_lock l d evs"

subsection \<open>Threads\<close>

text \<open>
  Several threads call \<open>get_unscaled\<close> on one proxy whose keep-open flag is true.  The
  interpreter may switch threads between any two statements, so a thread runs the
  statements of \<open>_get_fileobj\<close> and \<open>get_unscaled\<close> one at a time: (0) the test
  \<open>hasattr(self, '_opener')\<close>, (1) the call of \<open>ImageOpener\<close>, (2) the assignment to
  \<open>self._opener\<close>, (3) the \<open>yield\<close> of \<open>self._opener\<close>, (4) the acquisition of the lock,
  which waits while another thread holds it, (5) the read, (6) the release; at 7 the
  call has returned or raised.  A thread keeps the result of its \<open>ImageOpener\<close> call
  and the file object it was given; the proxy, the world and the holder of the lock
  are shared.  A schedule is the list of the threads that take the next step.
\<close>

record thread_state =
  pc :: nat
  new_ref :: "nat option"
  fileobj :: "nat option"

record shared_state =
  sh_proxy :: ArrayProxy
  sh_world :: world
  sh_owner :: "nat option"

definition thread_step ::
  "('a, 's) collab \<Rightarrow> nat \<Rightarrow> thread_state \<Rightarrow> shared_state \<Rightarrow> thread_state \<times> shared_state" where
  "thread_step c tid t s =
     (let self = sh_proxy s; w = sh_world s in
      if pc t = 0 then
        (if self_opener self = NoAttr then (t\<lparr>pc := 1\<rparr>, s) else (t\<lparr>pc := 3\<rparr>, s))
      else if pc t = 1 then
        (case ImageOpener c (file_like self) (Some (self_keep_file_open self)) w of
           Inl e \<Rightarrow> (t\<lparr>pc := 7\<rparr>, s)
         | Inr (h, w1) \<Rightarrow> (t\<lparr>pc := 2, new_ref := Some h\<rparr>, s\<lparr>sh_world := w1\<rparr>))
      else if pc t = 2 then
        (case new_ref t of
           None \<Rightarrow> (t\<lparr>pc := 7\<rparr>, s)
         | Some h \<Rightarrow> (t\<lparr>pc := 3\<rparr>, s\<lparr>sh_proxy := self\<lparr>self_opener := OpenerRef h\<rparr>\<rparr>))
      else if pc t = 3 then
        (case self_opener self of
           NoAttr \<Rightarrow> (t\<lparr>pc := 7\<rparr>, s)
         | IsNone \<Rightarrow> (t\<lparr>pc := 4, fileobj := None\<rparr>, s)
         | OpenerRef h \<Rightarrow> (t\<lparr>pc := 4, fileobj := Some h\<rparr>, s))
      else if pc t = 4 then
        (case self_lock self of
           None \<Rightarrow> (t\<lparr>pc := 7\<rparr>, s)
         | Some l \<Rightarrow>
             if sh_owner s = None
             then (t\<lparr>pc := 5\<rparr>, s\<lparr>sh_owner := Some tid, sh_world := acquire l w\<rparr>)
             else (t, s))
      else if pc t = 5 then
        (t\<lparr>pc := 6\<rparr>, s\<lparr>sh_world := w\<lparr>trace := trace w @ [ReadFrom (fileobj t)]\<rparr>\<rparr>)
      else if pc t = 6 then
        (case self_lock self of
           None \<Rightarrow> (t\<lparr>pc := 7\<rparr>, s)
         | Some l \<Rightarrow> (t\<lparr>pc := 7\<rparr>, s\<lparr>sh_owner := None, sh_world := release l w\<rparr>))
      else (t, s))"

fun run_threads ::
  "('a, 's) collab \<Rightarrow> nat list \<Rightarrow> thread_state list \<times> shared_state
     \<Rightarrow> thread_state list \<times> shared_state" where
  "run_threads c [] (ts, s) = (ts, s)"
| "run_threads c (tid # sched) (ts, s) =
     (if tid < length ts
      then (case thread_step c tid (ts ! tid) s of
              (t1, s1) \<Rightarrow> run_threads c sched (ts[tid := t1], s1))
      else run_threads c sched (ts, s))"

subsection \<open>A concrete environment\<close>

text \<open>
  Concrete collaborators, an empty world and the proxy that the constructor makes from
  the tuple \<open>((4, 4, 2), 'int16')\<close> on the file \<open>data.nii\<close>, at which the properties are
  evaluated.  The reader refuses a missing or closed file object.
\<close>

definition demo_collab :: "(int list, nat) collab" where
  "demo_collab =
     \<lparr>dtype_of = (\<lambda>x. if x = PStr ''int16'' then Some ''int16'' else None),
      can_open = (\<lambda>fl. case fl of Filename s \<Rightarrow> s \<noteq> ''missing.nii'' | FileObj i r sk \<Rightarrow> True),
      array_from_file =
        (\<lambda>shape dtype fo offset order mmap.
           case fo of None \<Rightarrow> Inl IOError
           | Some ob \<Rightarrow> if op_closed ob then Inl IOError else Inr [0, 1, 2, 3]),
      fileslice =
        (\<lambda>fo slicer shape dtype offset order.
           case fo of None \<Rightarrow> Inl IOError
           | Some ob \<Rightarrow> if op_closed ob then Inl IOError else Inr [int slicer]),
      apply_read_scaling = (\<lambda>raw slope inter. raw)\<rparr>"

definition world0 :: world where
  "world0 = \<lparr>headers = [], cells = [], openers = [], locks = 0, trace = []\<rparr>"

definition demo_spec :: spec where
  "demo_spec = SpecTuple [PShape [4, 4, 2], PStr ''int16'']"

definition demo_proxy :: "pyobj \<Rightarrow> ArrayProxy" where
  "demo_proxy k =
     \<lparr>file_like = Filename ''data.nii'', self_header = None, self_shape = PShape [4, 4, 2],
      self_dtype = PDtype ''int16'', self_offset = PInt 0, self_slope = PFloat 1,
      self_inter = PFloat 0, self_mmap = PBool True, self_keep_file_open = k,
      self_opener = NoAttr, self_lock = Some 0\<rparr>"

definition ten_reads :: "nat read_op list" where
  "ten_reads = [Array, GetUnscaled, GetItem 3, Array, Array, GetUnscaled, GetItem 0, Array,
                GetItem 1, Array]"

text \<open>
  The world after the construction of the proxy, the proxy that the constructor makes
  on an open stream of the caller, and the proxy and the world after a first read with
  the keep-open flag set.
\<close>

definition world1 :: world where
  "world1 = world0\<lparr>locks := 1\<rparr>"

definition stream_proxy :: ArrayProxy where
  "stream_proxy = (demo_proxy (PBool False))\<lparr>file_like := FileObj 0 True True\<rparr>"

definition opened_proxy :: ArrayProxy where
  "opened_proxy = fst (snd (read demo_collab (demo_proxy (PBool True)) (Array :: nat read_op) world1))"

definition opened_world :: world where
  "opened_world = snd (snd (read demo_collab (demo_proxy (PBool True)) (Array :: nat read_op) world1))"

text \<open>A header without an intercept and the world that holds it.\<close>

definition demo_header :: header where
  "demo_header =
     \<lparr>hdr_shape = PShape [4, 4, 2], hdr_dtype = PStr ''int16'', hdr_offset = PInt 352,
      hdr_slope = PFloat 2, hdr_inter = PNone\<rparr>"

definition header_world :: world where
  "header_world = world0\<lparr>headers := [demo_header]\<rparr>"

text \<open>
  Collaborators that read the raw values 0, 1, 2, 3 and scale as the spec says; the
  proxy with slope 2 and intercept 100; a header that holds a mutable object of value 2
  as its slope, the world that holds both, and the proxy and the world after the
  construction of a proxy from that header.
\<close>

definition scaling_collab :: "(real list, nat) collab" where
  "scaling_collab =
     \<lparr>dtype_of = (\<lambda>x. if x = PStr ''int16'' then Some ''int16'' else None),
      can_open = (\<lambda>fl. True),
      array_from_file =
        (\<lambda>shape dtype fo offset order mmap.
           case fo of None \<Rightarrow> Inl IOError
           | Some ob \<Rightarrow> if op_closed ob then Inl IOError else Inr [0, 1, 2, 3]),
      fileslice =
        (\<lambda>fo slicer shape dtype offset order.
           case fo of None \<Rightarrow> Inl IOError
           | Some ob \<Rightarrow> if op_closed ob then Inl IOError else Inr [real slicer]),
      apply_read_scaling =
        (\<lambda>raw sl it.
           case num_of sl of
             None \<Rightarrow> raw
           | Some s \<Rightarrow>
               (case num_of it of
                  None \<Rightarrow> raw
                | Some i \<Rightarrow> apply_read_scaling_spec raw s i))\<rparr>"

definition scaled_proxy :: ArrayProxy where
  "scaled_proxy = (demo_proxy (PBool False))\<lparr>self_slope := PFloat 2, self_inter := PFloat 100\<rparr>"

definition mutable_header :: header where
  "mutable_header = demo_header\<lparr>hdr_slope := PRef 0, hdr_inter := PFloat 100\<rparr>"

definition mutable_world :: world where
  "mutable_world = world0\<lparr>headers := [mutable_header], cells := [PFloat 2]\<rparr>"

definition aliased_proxy :: ArrayProxy where
  "aliased_proxy =
     (demo_proxy (PBool False))
       \<lparr>self_header := Some 1, self_offset := PInt 352, self_slope := PRef 0,
        self_inter := PFloat 100\<rparr>"

definition mutable_world1 :: world where
  "mutable_world1 = mutable_world\<lparr>headers := [mutable_header, mutable_header], locks := 1\<rparr>"

text \<open>Two threads about to call \<open>get_unscaled\<close> on the newly constructed proxy.\<close>

definition thread0 :: thread_state where
  "thread0 = \<lparr>pc = 0, new_ref = None, fileobj = None\<rparr>"

definition two_threads :: "thread_state list \<times> shared_state" where
  "two_threads =
     ([thread0, thread0],
      \<lparr>sh_proxy = demo_proxy (PBool True), sh_world = world1, sh_owner = None\<rparr>)"

section \<open>Properties of the keep-open decision\<close>

lemma py_eq_auto: "py_eq m (PStr ''auto'') = (m = PStr ''auto'')"
  by (cases m) auto

text \<open>
  Claim C3.  For a source that is an open stream or a file name, and a requested mode
  that (after the default has been substituted for \<open>None\<close>) is one of the recognised
  values, the decision applies three rules in order: an open stream gives \<open>False\<close>
  (always open fresh) whatever the mode; otherwise \<open>'auto'\<close> without indexed access to
  the source gives \<open>False\<close>; otherwise the requested mode is returned as it is, and
  \<open>'auto'\<close>, being a true value, selects the persistent handle.
\<close>

theorem should_keep_file_open_rules:
  assumes "py_in (requested g kfo) [PStr ''auto'', PBool True, PBool False]"
    and "is_open_stream fl \<or> is_filename fl"
  shows "should_keep_file_open g fl kfo =
           Inr (if is_open_stream fl then PBool False
                else if requested g kfo = PStr ''auto'' \<and> \<not> indexed_access g fl
                     then PBool False
                else requested g kfo)
         \<and> policy_of (PBool False) = AlwaysOpenFresh
         \<and> policy_of (PBool True) = KeepOpenPersistent
         \<and> policy_of (PStr ''auto'') = KeepOpenPersistent"
  using assms
  by (cases fl)
     (auto simp: should_keep_file_open_def requested_def is_open_stream_def is_filename_def
        indexed_access_def policy_of_def py_eq_auto Let_def)

theorem should_keep_file_open_rules_witness:
  "py_in (requested (module_globals True) (PStr ''auto''))
     [PStr ''auto'', PBool True, PBool False]
   \<and> (is_open_stream (Filename ''a.nii.gz'') \<or> is_filename (Filename ''a.nii.gz''))
   \<and> should_keep_file_open (module_globals True) (Filename ''a.nii.gz'') (PStr ''auto'')
       = Inr (PStr ''auto'')"
proof -
  have h1: "py_in (requested (module_globals True) (PStr ''auto''))
              [PStr ''auto'', PBool True, PBool False]"
    by (simp add: requested_def)
  have h2: "is_open_stream (Filename ''a.nii.gz'') \<or> is_filename (Filename ''a.nii.gz'')"
    by (simp add: is_filename_def)
  show ?thesis
    using h1 h2 should_keep_file_open_rules [OF h1 h2]
    by (simp add: requested_def is_open_stream_def indexed_access_def module_globals_def
          endswith_def)
qed

section \<open>Properties of the handle provider\<close>

lemma opens_in_append [simp]: "opens_in (xs @ ys) = opens_in xs + opens_in ys"
  by (simp add: opens_in_def)

lemma closes_in_append [simp]: "closes_in (xs @ ys) = closes_in xs + closes_in ys"
  by (simp add: closes_in_def)

lemma read_handles_append [simp]: "read_handles (xs @ ys) = read_handles xs @ read_handles ys"
  by (simp add: read_handles_def)

lemma quiet_on_append: "quiet_on h xs \<Longrightarrow> quiet_on h ys \<Longrightarrow> quiet_on h (xs @ ys)"
  by (auto simp: quiet_on_def)

lemma quiet_on_Nil: "quiet_on h []"
  by (simp add: quiet_on_def opens_in_def closes_in_def read_handles_def)

lemma quiet_on_read_events: "quiet_on h (read_events self rop (Some h))"
  by (auto simp: quiet_on_def read_events_def opens_in_def closes_in_def read_handles_def
      split: option.splits read_op.splits)

lemma read_cached:
  assumes "truthy (self_keep_file_open self)" "self_opener self = OpenerRef h"
  shows "snd (read c self rop w) = (self, w\<lparr>trace := trace w @ read_events self rop (Some h)\<rparr>)"
  using assms
  by (cases rop; cases "self_lock self")
     (auto simp: read_def get_unscaled_def ArrayProxy_array_def ArrayProxy_getitem_def getitem_unscaled_def
        get_fileobj_def read_events_def acquire_def release_def Let_def split: sum.splits)

lemma read_first:
  assumes "truthy (self_keep_file_open self)" "self_opener self = NoAttr" "can_open c (file_like self)"
  shows "snd (read c self rop w) =
           (self\<lparr>self_opener := OpenerRef (length (openers w))\<rparr>,
            w\<lparr>openers := openers w @ [new_opener (file_like self) (Some (self_keep_file_open self))],
              trace := trace w @ Opened (length (openers w)) # read_events self rop (Some (length (openers w)))\<rparr>)"
  using assms
  by (cases rop; cases "self_lock self")
     (auto simp: read_def get_unscaled_def ArrayProxy_array_def ArrayProxy_getitem_def getitem_unscaled_def
        get_fileobj_def read_events_def acquire_def release_def Let_def ImageOpener_def new_opener_def split: sum.splits)

lemma read_fresh:
  assumes "\<not> truthy (self_keep_file_open self)" "can_open c (file_like self)"
  shows "snd (read c self rop w) =
           (self,
            w\<lparr>openers := openers w
                 @ [(new_opener (file_like self) None)\<lparr>op_closed := is_filename (file_like self)\<rparr>],
              trace := trace w @ Opened (length (openers w))
                         # read_events self rop (Some (length (openers w)))
                         @ (if is_filename (file_like self) then [Closed (length (openers w))]
                            else [])\<rparr>)"
  using assms
  by (cases rop; cases "self_lock self"; cases "file_like self")
     (auto simp: read_def get_unscaled_def ArrayProxy_array_def ArrayProxy_getitem_def getitem_unscaled_def
        get_fileobj_def read_events_def acquire_def release_def Let_def ImageOpener_def
        new_opener_def opener_exit_def close_if_mine_def is_mine_def is_filename_def
        set_closed_def opener_at_def split: sum.splits)

lemma reads_cached:
  assumes "truthy (self_keep_file_open self)" "self_opener self = OpenerRef h"
  shows "snd (reads c self rops w) = (self, w\<lparr>trace := trace w @ reads_events self rops (Some h)\<rparr>)"
  using assms
proof (induction rops arbitrary: w)
  case Nil
  then show ?case by simp
next
  case (Cons rop rops)
  obtain r self1 w1 where 1: "read c self rop w = (r, self1, w1)" by (metis prod_cases3)
  with read_cached [OF Cons.prems, of c rop w]
  have 2: "self1 = self" "w1 = w\<lparr>trace := trace w @ read_events self rop (Some h)\<rparr>" by auto
  obtain rs self2 w2 where 3: "reads c self rops w1 = (rs, self2, w2)" by (metis prod_cases3)
  with Cons.IH [OF Cons.prems, of w1] have "self2 = self" "w2 = w1\<lparr>trace := trace w1 @ reads_events self rops (Some h)\<rparr>"
    by auto
  with 1 2 3 show ?case by simp
qed

lemma demo_init:
  "ArrayProxy_init (module_globals False) demo_collab (Filename ''data.nii'') demo_spec (PBool True) (PBool b) world0
   = (Inr (demo_proxy (PBool b)), world0\<lparr>locks := 1\<rparr>)"
  by (simp add: ArrayProxy_init_def spec_par_def demo_spec_def np_dtype_def demo_collab_def
      should_keep_file_open_def RLock_def demo_proxy_def world0_def)

lemma init_no_open:
  "openers (snd (ArrayProxy_init g c fl sp mmap kfo w)) = openers w
   \<and> trace (snd (ArrayProxy_init g c fl sp mmap kfo w)) = trace w"
  by (auto simp: ArrayProxy_init_def spec_par_def header_copy_def RLock_def Let_def
      split: spec.splits sum.splits list.splits prod.splits)

lemma init_opener_unset:
  "fst (ArrayProxy_init g c fl sp mmap kfo w) = Inr p \<Longrightarrow> self_opener p = NoAttr"
  by (auto simp: ArrayProxy_init_def spec_par_def header_copy_def RLock_def Let_def
      split: spec.splits sum.splits list.splits prod.splits if_splits)

lemma read_events_opener [simp]:
  "read_events (self\<lparr>self_opener := x\<rparr>) rop fo = read_events self rop fo"
  by (simp add: read_events_def)

lemma reads_events_opener [simp]:
  "reads_events (self\<lparr>self_opener := x\<rparr>) rops fo = reads_events self rops fo"
  by (induction rops) auto

lemma quiet_on_reads_events: "quiet_on h (reads_events self rops (Some h))"
  by (induction rops) (auto simp: quiet_on_Nil quiet_on_read_events quiet_on_append)

lemma reads_first:
  assumes "truthy (self_keep_file_open self)" "self_opener self = NoAttr"
    "can_open c (file_like self)" "rops \<noteq> []"
  shows "snd (reads c self rops w) =
           (self\<lparr>self_opener := OpenerRef (length (openers w))\<rparr>,
            w\<lparr>openers := openers w @ [new_opener (file_like self) (Some (self_keep_file_open self))],
              trace := trace w @ Opened (length (openers w))
                         # reads_events self rops (Some (length (openers w)))\<rparr>)"
proof (cases rops)
  case Nil
  with assms show ?thesis by simp
next
  case (Cons rop rest)
  let ?h = "length (openers w)"
  let ?self1 = "self\<lparr>self_opener := OpenerRef ?h\<rparr>"
  let ?w1 = "w\<lparr>openers := openers w @ [new_opener (file_like self) (Some (self_keep_file_open self))],
              trace := trace w @ Opened ?h # read_events self rop (Some ?h)\<rparr>"
  have 1: "snd (read c self rop w) = (?self1, ?w1)"
    using read_first [OF assms(1-3)] .
  have 2: "snd (reads c ?self1 rest ?w1) =
             (?self1, ?w1\<lparr>trace := trace ?w1 @ reads_events ?self1 rest (Some ?h)\<rparr>)"
    by (rule reads_cached) (use assms in simp_all)
  show ?thesis
    using 1 2 Cons by (auto split: prod.splits)
qed

text \<open>
  Claim C4 does not hold as stated.  The constructor gives a proxy on a stream that the
  caller handed in the keep-open flag \<open>False\<close>.  A read of that proxy opens a new
  opener, reads from it and leaves its scope, and the opener is not closed: the exit
  closes only what the opener itself opened.
\<close>

theorem fresh_handle_on_stream_not_closed_counterexample:
  "ArrayProxy_init (module_globals False) demo_collab (FileObj 0 True True) demo_spec
     (PBool True) (PBool True) world0
     = (Inr stream_proxy, world1)
   \<and> \<not> truthy (self_keep_file_open stream_proxy)
   \<and> snd (snd (read demo_collab stream_proxy Array world1))
       = world1\<lparr>openers := [new_opener (FileObj 0 True True) None],
                 trace := [Opened 0, Acquired 0, ReadFrom (Some 0), Released 0]\<rparr>
   \<and> \<not> closed (snd (snd (read demo_collab stream_proxy Array world1))) 0
   \<and> closes_in (trace (snd (snd (read demo_collab stream_proxy Array world1)))) = 0"
proof -
  have i: "ArrayProxy_init (module_globals False) demo_collab (FileObj 0 True True) demo_spec
             (PBool True) (PBool True) world0 = (Inr stream_proxy, world1)"
    by (simp add: ArrayProxy_init_def spec_par_def demo_spec_def np_dtype_def demo_collab_def
        should_keep_file_open_def RLock_def stream_proxy_def demo_proxy_def world0_def
        world1_def Let_def)
  have r: "snd (read demo_collab stream_proxy (Array :: nat read_op) world1)
       = (stream_proxy,
          world1\<lparr>openers := [new_opener (FileObj 0 True True) None],
                 trace := [Opened 0, Acquired 0, ReadFrom (Some 0), Released 0]\<rparr>)"
    by (subst read_fresh)
       (simp_all add: stream_proxy_def demo_proxy_def demo_collab_def world1_def world0_def
          read_events_def is_filename_def new_opener_def)
  show ?thesis
    unfolding r using i
    by (simp add: stream_proxy_def demo_proxy_def closed_def opener_at_def new_opener_def
        closes_in_def)
qed

text \<open>
  Claim C4, amended.  The constructor opens no handle and leaves \<open>_opener\<close> unset.  With a
  true keep-open flag, no cached opener yet and a source that can be opened, any
  non-empty sequence of reads opens exactly one handle, in the first read, caches it,
  and every read of the sequence reads from that handle; nothing is closed.  With a
  false flag, a read opens a new handle, reads from it and, when the scope of the
  \<open>with\<close> statement ends, whether the read returned or raised, releases it through
  the ownership-respecting close: the handle is closed when the source is a file name
  and left open when the source is a file object of the caller; the proxy is unchanged.
\<close>

theorem persistent_handle_lazy_and_reused:
  "openers (snd (ArrayProxy_init g c fl sp mmap kfo w0)) = openers w0
   \<and> trace (snd (ArrayProxy_init g c fl sp mmap kfo w0)) = trace w0
   \<and> (case fst (ArrayProxy_init g c fl sp mmap kfo w0) of
         Inl e \<Rightarrow> True
       | Inr p \<Rightarrow> self_opener p = NoAttr)
   \<and> (truthy (self_keep_file_open self) \<and> self_opener self = NoAttr
        \<and> can_open c (file_like self) \<and> rops \<noteq> [] \<longrightarrow>
        snd (reads c self rops w) =
          (self\<lparr>self_opener := OpenerRef (length (openers w))\<rparr>,
           w\<lparr>openers :=
                openers w @ [new_opener (file_like self) (Some (self_keep_file_open self))],
             trace := trace w @ Opened (length (openers w))
                        # reads_events self rops (Some (length (openers w)))\<rparr>)
        \<and> opens_in (Opened (length (openers w))
                      # reads_events self rops (Some (length (openers w)))) = 1
        \<and> quiet_on (length (openers w)) (reads_events self rops (Some (length (openers w)))))
   \<and> (\<not> truthy (self_keep_file_open q) \<and> can_open c (file_like q) \<longrightarrow>
        snd (read c q rop v) =
          (q,
           v\<lparr>openers := openers v
                @ [(new_opener (file_like q) None)\<lparr>op_closed := is_filename (file_like q)\<rparr>],
             trace := trace v @ Opened (length (openers v))
                        # read_events q rop (Some (length (openers v)))
                        @ (if is_filename (file_like q) then [Closed (length (openers v))]
                           else [])\<rparr>)
        \<and> quiet_on (length (openers v)) (read_events q rop (Some (length (openers v)))))"
proof -
  have a: "openers (snd (ArrayProxy_init g c fl sp mmap kfo w0)) = openers w0"
    and b: "trace (snd (ArrayProxy_init g c fl sp mmap kfo w0)) = trace w0"
    using init_no_open [of g c fl sp mmap kfo w0] by simp_all
  have d: "case fst (ArrayProxy_init g c fl sp mmap kfo w0) of
             Inl e \<Rightarrow> True | Inr p \<Rightarrow> self_opener p = NoAttr"
    using init_opener_unset [of g c fl sp mmap kfo w0] by (simp split: sum.splits)
  have e: "opens_in (Opened h # evs) = 1" if "quiet_on h evs" for h evs
    using that by (simp add: quiet_on_def opens_in_def)
  show ?thesis
    using a b d reads_first [of self c rops w] read_fresh [of q c rop v]
      e [OF quiet_on_reads_events [of "length (openers w)" self rops]]
      quiet_on_reads_events [of "length (openers w)" self rops]
      quiet_on_read_events [of "length (openers v)" q rop]
    by simp
qed

theorem persistent_handle_lazy_and_reused_witness:
  "truthy (self_keep_file_open (demo_proxy (PBool True)))
   \<and> self_opener (demo_proxy (PBool True)) = NoAttr
   \<and> can_open demo_collab (file_like (demo_proxy (PBool True)))
   \<and> ten_reads \<noteq> []
   \<and> \<not> truthy (self_keep_file_open (demo_proxy (PBool False)))
   \<and> can_open demo_collab (file_like (demo_proxy (PBool False)))
   \<and> ArrayProxy_init (module_globals False) demo_collab (Filename ''data.nii'') demo_spec
         (PBool True) (PBool True) world0
       = (Inr (demo_proxy (PBool True)), world1)
   \<and> openers world1 = []
   \<and> length (openers (snd (snd (reads demo_collab (demo_proxy (PBool True)) ten_reads world1))))
       = 1
   \<and> opens_in (trace (snd (snd (reads demo_collab (demo_proxy (PBool True)) ten_reads world1))))
       = 1
   \<and> snd (snd (read demo_collab (demo_proxy (PBool False)) Array world1))
       = world1\<lparr>openers := [(new_opener (Filename ''data.nii'') None)\<lparr>op_closed := True\<rparr>],
                 trace := [Opened 0, Acquired 0, ReadFrom (Some 0), Released 0, Closed 0]\<rparr>"
proof -
  let ?p = "demo_proxy (PBool True)"
  let ?q = "demo_proxy (PBool False)"
  have h1: "truthy (self_keep_file_open ?p) \<and> self_opener ?p = NoAttr
            \<and> can_open demo_collab (file_like ?p) \<and> ten_reads \<noteq> []"
    by (simp add: demo_proxy_def demo_collab_def ten_reads_def)
  have h2: "\<not> truthy (self_keep_file_open ?q) \<and> can_open demo_collab (file_like ?q)"
    by (simp add: demo_proxy_def demo_collab_def)
  have i: "ArrayProxy_init (module_globals False) demo_collab (Filename ''data.nii'') demo_spec
             (PBool True) (PBool True) world0 = (Inr ?p, world1)"
    by (simp add: demo_init world1_def)
  note t = persistent_handle_lazy_and_reused
      [where g = "module_globals False" and c = demo_collab and fl = "Filename ''data.nii''"
         and sp = demo_spec and mmap = "PBool True" and kfo = "PBool True" and ?w0.0 = world0
         and self = ?p and rops = ten_reads and w = world1
         and q = ?q and rop = "Array :: nat read_op" and v = world1]
  have n: "openers world1 = []"
    using t [THEN conjunct1, unfolded i] by (simp add: world0_def)
  note r = t [THEN conjunct2, THEN conjunct2, THEN conjunct2, THEN conjunct1, THEN mp, OF h1]
  note f = t [THEN conjunct2, THEN conjunct2, THEN conjunct2, THEN conjunct2, THEN mp, OF h2]
  have w1: "trace world1 = []"
    by (simp add: world1_def world0_def)
  have r1: "length (openers (snd (snd (reads demo_collab ?p ten_reads world1)))) = 1"
    unfolding r [THEN conjunct1] by (simp add: n)
  have r2: "opens_in (trace (snd (snd (reads demo_collab ?p ten_reads world1)))) = 1"
    unfolding r [THEN conjunct1] using r [THEN conjunct2, THEN conjunct1]
    by (simp add: n w1)
  have f1: "snd (snd (read demo_collab ?q (Array :: nat read_op) world1))
       = world1\<lparr>openers := [(new_opener (Filename ''data.nii'') None)\<lparr>op_closed := True\<rparr>],
                 trace := [Opened 0, Acquired 0, ReadFrom (Some 0), Released 0, Closed 0]\<rparr>"
    unfolding f [THEN conjunct1]
    by (simp add: n w1 read_events_def demo_proxy_def is_filename_def)
  show ?thesis
    using h1 h2 i n r1 r2 f1 by simp
qed

section \<open>Properties of teardown\<close>

lemma del_IsNone:
  "self_opener self = IsNone \<Longrightarrow>
   ArrayProxy_del self w = (Some (AttributeError ''closed''), self, w)"
  by (simp add: ArrayProxy_del_def)

lemma teardowns_IsNone: "self_opener self = IsNone \<Longrightarrow> teardowns n self w = (self, w)"
  by (induction n) (simp_all add: del_IsNone)

lemma close_if_mine_eq:
  "opener_at w h = Some ob \<Longrightarrow>
   close_if_mine h w =
     (if is_mine ob
      then w\<lparr>openers := (openers w)[h := ob\<lparr>op_closed := True\<rparr>], trace := trace w @ [Closed h]\<rparr>
      else w)"
  by (simp add: close_if_mine_def set_closed_def)

text \<open>
  Claim C9.  Teardown does nothing when no opener is cached, and nothing when the cached
  opener is already closed.  When the cached opener is open, teardown calls
  \<open>close_if_mine\<close> on it and nothing else, which closes it if the opener itself opened
  the file and leaves a handle that the caller handed in as it is; it then sets the
  cached reference to \<open>None\<close>, so that any number of further teardowns change neither
  the proxy nor the world: the handle is closed once.
\<close>

theorem teardown_closes_owned_handle_once:
  "(self_opener p = NoAttr \<longrightarrow> ArrayProxy_del p u = (None, p, u))
   \<and> (self_opener q = OpenerRef k \<and> closed v k \<longrightarrow> ArrayProxy_del q v = (None, q, v))
   \<and> (self_opener self = OpenerRef h \<and> opener_at w h = Some ob \<and> \<not> op_closed ob \<longrightarrow>
        ArrayProxy_del self w = (None, self\<lparr>self_opener := IsNone\<rparr>, close_if_mine h w)
        \<and> close_if_mine h w =
            (if is_mine ob
             then w\<lparr>openers := (openers w)[h := ob\<lparr>op_closed := True\<rparr>],
                    trace := trace w @ [Closed h]\<rparr>
             else w)
        \<and> teardowns (Suc n) self w = (self\<lparr>self_opener := IsNone\<rparr>, close_if_mine h w))"
proof -
  have 3: "ArrayProxy_del self w = (None, self\<lparr>self_opener := IsNone\<rparr>, close_if_mine h w)"
    if "self_opener self = OpenerRef h" "opener_at w h = Some ob" "\<not> op_closed ob"
    using that by (simp add: ArrayProxy_del_def closed_def)
  have 4: "teardowns (Suc n) self w = (self\<lparr>self_opener := IsNone\<rparr>, close_if_mine h w)"
    if "self_opener self = OpenerRef h" "opener_at w h = Some ob" "\<not> op_closed ob"
    using 3 [OF that] by (simp add: teardowns_IsNone)
  show ?thesis
    using 3 4 close_if_mine_eq [of w h ob]
    by (auto simp: ArrayProxy_del_def)
qed

lemma opened_read:
  "snd (read demo_collab (demo_proxy (PBool True)) (Array :: nat read_op) world1) =
     ((demo_proxy (PBool True))\<lparr>self_opener := OpenerRef 0\<rparr>,
      \<lparr>headers = [], cells = [],
      openers = [new_opener (Filename ''data.nii'') (Some (PBool True))],
       locks = 1, trace = [Opened 0, Acquired 0, ReadFrom (Some 0), Released 0]\<rparr>)"
  by (subst read_first)
     (simp_all add: demo_proxy_def demo_collab_def world1_def world0_def read_events_def)

lemma opened_proxy_eq:
  "opened_proxy = (demo_proxy (PBool True))\<lparr>self_opener := OpenerRef 0\<rparr>"
  by (simp add: opened_proxy_def opened_read)

lemma opened_world_eq:
  "opened_world =
     \<lparr>headers = [], cells = [],
      openers = [new_opener (Filename ''data.nii'') (Some (PBool True))],
      locks = 1, trace = [Opened 0, Acquired 0, ReadFrom (Some 0), Released 0]\<rparr>"
  by (simp add: opened_world_def opened_read)

theorem teardown_closes_owned_handle_once_witness:
  "self_opener (demo_proxy (PBool True)) = NoAttr
   \<and> self_opener opened_proxy = OpenerRef 0
   \<and> closed (set_closed 0 opened_world) 0
   \<and> opener_at opened_world 0 = Some (new_opener (Filename ''data.nii'') (Some (PBool True)))
   \<and> \<not> op_closed (new_opener (Filename ''data.nii'') (Some (PBool True)))
   \<and> ArrayProxy_del (demo_proxy (PBool True)) world1 = (None, demo_proxy (PBool True), world1)
   \<and> ArrayProxy_del opened_proxy (set_closed 0 opened_world)
       = (None, opened_proxy, set_closed 0 opened_world)
   \<and> teardowns 2 opened_proxy opened_world
       = (opened_proxy\<lparr>self_opener := IsNone\<rparr>,
          opened_world
            \<lparr>openers := [(new_opener (Filename ''data.nii'') (Some (PBool True)))\<lparr>op_closed := True\<rparr>],
             trace := trace opened_world @ [Closed 0]\<rparr>)"
proof -
  let ?ob = "new_opener (Filename ''data.nii'') (Some (PBool True))"
  have h1: "self_opener (demo_proxy (PBool True)) = NoAttr"
    by (simp add: demo_proxy_def)
  have h2: "self_opener opened_proxy = OpenerRef 0 \<and> closed (set_closed 0 opened_world) 0"
    by (simp add: opened_proxy_eq opened_world_eq closed_def set_closed_def opener_at_def)
  have h3: "self_opener opened_proxy = OpenerRef 0 \<and> opener_at opened_world 0 = Some ?ob
            \<and> \<not> op_closed ?ob"
    by (simp add: opened_proxy_eq opened_world_eq opener_at_def new_opener_def)
  note t = teardown_closes_owned_handle_once
      [of "demo_proxy (PBool True)" world1 opened_proxy 0 "set_closed 0 opened_world"
          opened_proxy 0 opened_world ?ob 1]
  note r1 = t [THEN conjunct1, THEN mp, OF h1]
  have r2: "ArrayProxy_del opened_proxy (set_closed 0 opened_world)
              = (None, opened_proxy, set_closed 0 opened_world)"
    using t [THEN conjunct2, THEN conjunct1, THEN mp, OF h2] .
  note r3 = t [THEN conjunct2, THEN conjunct2, THEN mp, OF h3]
  have m: "is_mine ?ob" by (simp add: is_mine_def new_opener_def)
  have two: "(2::nat) = Suc 1" by simp
  have r4: "teardowns 2 opened_proxy opened_world
       = (opened_proxy\<lparr>self_opener := IsNone\<rparr>,
          opened_world
            \<lparr>openers := [?ob\<lparr>op_closed := True\<rparr>],
             trace := trace opened_world @ [Closed 0]\<rparr>)"
    unfolding two r3 [THEN conjunct2, THEN conjunct2] r3 [THEN conjunct2, THEN conjunct1]
    using m by (simp add: opened_world_eq)
  show ?thesis
    using h1 h2 h3 r1 r2 r4 by simp
qed

section \<open>Properties of pickling\<close>

text \<open>
  Claim C1 does not hold as stated.  After a first read with the keep-open flag set the
  proxy caches opener 0.  The state that \<open>__getstate__\<close> returns still holds that
  opener, the proxy restored from it holds it as well, and the first read of the
  restored proxy opens no handle: it reads from opener 0, which was opened before the
  state was captured.
\<close>

theorem getstate_keeps_open_handle_counterexample:
  "self_opener opened_proxy = OpenerRef 0
   \<and> opener_at opened_world 0 = Some (new_opener (Filename ''data.nii'') (Some (PBool True)))
   \<and> self_opener (getstate opened_proxy) = OpenerRef 0
   \<and> self_opener (fst (setstate object_new (getstate opened_proxy) opened_world)) = OpenerRef 0
   \<and> truthy (self_keep_file_open (fst (setstate object_new (getstate opened_proxy) opened_world)))
   \<and> snd (snd (read demo_collab (fst (setstate object_new (getstate opened_proxy) opened_world))
                 (Array :: nat read_op) (snd (setstate object_new (getstate opened_proxy) opened_world))))
      = opened_world\<lparr>locks := 2, trace := trace opened_world @ [Acquired 1, ReadFrom (Some 0), Released 1]\<rparr>"
  by (simp add: opened_proxy_eq opened_world_eq getstate_def setstate_def dict_update_def
      object_new_def RLock_def demo_proxy_def read_def ArrayProxy_array_def get_unscaled_def
      get_fileobj_def acquire_def release_def fileobj_of_def opener_at_def demo_collab_def
      new_opener_def)

lemma pickle_roundtrip_eq:
  "pickle_roundtrip self w = (self\<lparr>self_lock := Some (locks w)\<rparr>, w\<lparr>locks := Suc (locks w)\<rparr>)"
  by (cases "self_opener self")
     (simp_all add: pickle_roundtrip_def setstate_def getstate_def dict_update_def object_new_def
      RLock_def split: option.splits)

text \<open>
  Claim C1, amended.  The captured state lacks the lock and nothing else: every other
  attribute, the cached opener included, is in it.  Restoring the state into a new
  object gives the original proxy with a lock that did not exist before.  If the proxy
  had no cached opener when its state was captured, the first read of the restored
  proxy (keep-open flag set, source can be opened) opens exactly one handle, a new one;
  if it had cached opener \<open>h\<close>, the read of the restored proxy opens nothing and reads
  from \<open>h\<close>.
\<close>

theorem getstate_excludes_lock_only:
  "self_lock (getstate self) = None
   \<and> (getstate self)\<lparr>self_lock := self_lock self\<rparr> = self
   \<and> pickle_roundtrip self w = (self\<lparr>self_lock := Some (locks w)\<rparr>, w\<lparr>locks := Suc (locks w)\<rparr>)
   \<and> (truthy (self_keep_file_open self) \<and> self_opener self = NoAttr
        \<and> can_open c (file_like self) \<longrightarrow>
        snd (read c (fst (pickle_roundtrip self w)) rop (snd (pickle_roundtrip self w))) =
          (self\<lparr>self_lock := Some (locks w), self_opener := OpenerRef (length (openers w))\<rparr>,
           w\<lparr>locks := Suc (locks w),
             openers :=
               openers w @ [new_opener (file_like self) (Some (self_keep_file_open self))],
             trace := trace w @ Opened (length (openers w))
                        # read_events (self\<lparr>self_lock := Some (locks w)\<rparr>) rop
                            (Some (length (openers w)))\<rparr>))
   \<and> (truthy (self_keep_file_open q) \<and> self_opener q = OpenerRef h \<longrightarrow>
        snd (read c (fst (pickle_roundtrip q v)) rop (snd (pickle_roundtrip q v))) =
          (q\<lparr>self_lock := Some (locks v)\<rparr>,
           v\<lparr>locks := Suc (locks v),
             trace := trace v @ read_events (q\<lparr>self_lock := Some (locks v)\<rparr>) rop (Some h)\<rparr>))"
proof -
  have 1: "self_lock (getstate self) = None"
    and 2: "(getstate self)\<lparr>self_lock := self_lock self\<rparr> = self"
    by (simp_all add: getstate_def)
  have 4: "snd (read c (fst (pickle_roundtrip self w)) rop (snd (pickle_roundtrip self w))) =
          (self\<lparr>self_lock := Some (locks w), self_opener := OpenerRef (length (openers w))\<rparr>,
           w\<lparr>locks := Suc (locks w),
             openers :=
               openers w @ [new_opener (file_like self) (Some (self_keep_file_open self))],
             trace := trace w @ Opened (length (openers w))
                        # read_events (self\<lparr>self_lock := Some (locks w)\<rparr>) rop
                            (Some (length (openers w)))\<rparr>)"
    if "truthy (self_keep_file_open self)" "self_opener self = NoAttr" "can_open c (file_like self)"
    using that by (simp add: pickle_roundtrip_eq read_first)
  have 5: "snd (read c (fst (pickle_roundtrip q v)) rop (snd (pickle_roundtrip q v))) =
          (q\<lparr>self_lock := Some (locks v)\<rparr>,
           v\<lparr>locks := Suc (locks v),
             trace := trace v @ read_events (q\<lparr>self_lock := Some (locks v)\<rparr>) rop (Some h)\<rparr>)"
    if "truthy (self_keep_file_open q)" "self_opener q = OpenerRef h"
    using that by (simp add: pickle_roundtrip_eq read_cached [where h = h])
  show ?thesis
    using 1 2 4 5 pickle_roundtrip_eq [of self w] by blast
qed

theorem getstate_excludes_lock_only_witness:
  "truthy (self_keep_file_open (demo_proxy (PBool True)))
   \<and> self_opener (demo_proxy (PBool True)) = NoAttr
   \<and> can_open demo_collab (file_like (demo_proxy (PBool True)))
   \<and> truthy (self_keep_file_open opened_proxy)
   \<and> self_opener opened_proxy = OpenerRef 0
   \<and> self_lock (getstate (demo_proxy (PBool True))) = None
   \<and> fst (pickle_roundtrip (demo_proxy (PBool True)) world1)
       = (demo_proxy (PBool True))\<lparr>self_lock := Some 1\<rparr>
   \<and> trace (snd (snd (read demo_collab (fst (pickle_roundtrip (demo_proxy (PBool True)) world1))
                        (Array :: nat read_op) (snd (pickle_roundtrip (demo_proxy (PBool True)) world1)))))
       = [Opened 0, Acquired 1, ReadFrom (Some 0), Released 1]
   \<and> trace (snd (snd (read demo_collab (fst (pickle_roundtrip opened_proxy opened_world))
                        (Array :: nat read_op) (snd (pickle_roundtrip opened_proxy opened_world)))))
       = trace opened_world @ [Acquired 1, ReadFrom (Some 0), Released 1]"
proof -
  have h1: "truthy (self_keep_file_open (demo_proxy (PBool True)))
            \<and> self_opener (demo_proxy (PBool True)) = NoAttr
            \<and> can_open demo_collab (file_like (demo_proxy (PBool True)))"
    by (simp add: demo_proxy_def demo_collab_def)
  have h2: "truthy (self_keep_file_open opened_proxy) \<and> self_opener opened_proxy = OpenerRef 0"
    by (simp add: opened_proxy_eq demo_proxy_def)
  note t = getstate_excludes_lock_only
      [of "demo_proxy (PBool True)" world1 demo_collab "Array :: nat read_op" opened_proxy 0
          opened_world]
  from t have a: "self_lock (getstate (demo_proxy (PBool True))) = None"
    and b: "pickle_roundtrip (demo_proxy (PBool True)) world1 =
              ((demo_proxy (PBool True))\<lparr>self_lock := Some (locks world1)\<rparr>,
               world1\<lparr>locks := Suc (locks world1)\<rparr>)"
    by simp_all
  have r1:
    "snd (read demo_collab (fst (pickle_roundtrip (demo_proxy (PBool True)) world1))
            (Array :: nat read_op) (snd (pickle_roundtrip (demo_proxy (PBool True)) world1))) =
          ((demo_proxy (PBool True))
             \<lparr>self_lock := Some (locks world1), self_opener := OpenerRef (length (openers world1))\<rparr>,
           world1\<lparr>locks := Suc (locks world1),
             openers := openers world1
               @ [new_opener (file_like (demo_proxy (PBool True)))
                    (Some (self_keep_file_open (demo_proxy (PBool True))))],
             trace := trace world1 @ Opened (length (openers world1))
                        # read_events ((demo_proxy (PBool True))\<lparr>self_lock := Some (locks world1)\<rparr>)
                            (Array :: nat read_op) (Some (length (openers world1)))\<rparr>)"
    using t [THEN conjunct2, THEN conjunct2, THEN conjunct2, THEN conjunct1, THEN mp, OF h1] .
  have r2:
    "snd (read demo_collab (fst (pickle_roundtrip opened_proxy opened_world))
            (Array :: nat read_op) (snd (pickle_roundtrip opened_proxy opened_world))) =
          (opened_proxy\<lparr>self_lock := Some (locks opened_world)\<rparr>,
           opened_world\<lparr>locks := Suc (locks opened_world),
             trace := trace opened_world
                        @ read_events (opened_proxy\<lparr>self_lock := Some (locks opened_world)\<rparr>)
                            (Array :: nat read_op) (Some 0)\<rparr>)"
    using t [THEN conjunct2, THEN conjunct2, THEN conjunct2, THEN conjunct2, THEN mp, OF h2] .
  have e1: "trace (snd (snd (read demo_collab (fst (pickle_roundtrip (demo_proxy (PBool True)) world1))
                        (Array :: nat read_op) (snd (pickle_roundtrip (demo_proxy (PBool True)) world1)))))
       = [Opened 0, Acquired 1, ReadFrom (Some 0), Released 1]"
    unfolding r1 by (simp add: world1_def world0_def read_events_def)
  have e2: "trace (snd (snd (read demo_collab (fst (pickle_roundtrip opened_proxy opened_world))
                        (Array :: nat read_op) (snd (pickle_roundtrip opened_proxy opened_world)))))
       = trace opened_world @ [Acquired 1, ReadFrom (Some 0), Released 1]"
    unfolding r2 by (simp add: opened_world_eq read_events_def)
  have e3: "fst (pickle_roundtrip (demo_proxy (PBool True)) world1)
       = (demo_proxy (PBool True))\<lparr>self_lock := Some 1\<rparr>"
    unfolding b by (simp add: world1_def world0_def)
  show ?thesis
    using h1 h2 a e1 e2 e3 by simp
qed

section \<open>Properties of reshape\<close>





lemma np_dtype_idem: "np_dtype c (PDtype d) = Inr (PDtype d)"
  by (simp add: np_dtype_def)

lemma np_dtype_result: "np_dtype c x = Inr y \<Longrightarrow> \<exists>d. y = PDtype d"
  by (auto simp: np_dtype_def split: pyobj.splits option.splits)

lemma init_tuple5:
  assumes "py_in mmap [PBool True, PBool False, PStr ''c'', PStr ''r'']"
    and "np_dtype c dt = Inr dt'" and "should_keep_file_open g fl kfo = Inr k"
  shows "ArrayProxy_init g c fl (SpecTuple [sh, dt, off, sl, it]) mmap kfo w =
           (Inr \<lparr>file_like = fl, self_header = None, self_shape = sh, self_dtype = dt',
                 self_offset = off, self_slope = sl, self_inter = it, self_mmap = mmap,
                 self_keep_file_open = k, self_opener = NoAttr, self_lock = Some (locks w)\<rparr>,
            w\<lparr>locks := Suc (locks w)\<rparr>)"
  using assms by (simp add: ArrayProxy_init_def spec_par_def RLock_def)

lemma init_constructed:
  "fst (ArrayProxy_init g c fl sp mmap kfo w) = Inr p \<Longrightarrow> constructed p"
  by (auto simp: ArrayProxy_init_def spec_par_def header_copy_def RLock_def Let_def constructed_def
      dest!: np_dtype_result
      split: spec.splits sum.splits list.splits prod.splits if_splits)








text \<open>
  The same wrap-around on the side of the proxy: a proxy of shape \<open>(2 ^ 32, 2 ^ 32)\<close>,
  whose element count wraps to 0, is reshaped to \<open>(0,)\<close>.
\<close>

lemma reshape_wrapped_parent:
  "reshape (module_globals False) demo_collab
     ((demo_proxy (PBool False))\<lparr>self_shape := PShape [4294967296, 4294967296]\<rparr>) [0] world1
     = (Inr ((demo_proxy (PBool False))\<lparr>self_shape := PShape [0], self_lock := Some 1\<rparr>),
        world1\<lparr>locks := 2\<rparr>)"
  by (simp add: reshape_def np_prod_def deref_def fits64_def wrap64_def demo_proxy_def
      init_tuple5 np_dtype_idem should_keep_file_open_def module_globals_def world1_def
      world0_def Let_def)



lemma module_default_keep:
  "should_keep_file_open (module_globals b) fl PNone = Inr (PBool False)"
  by (simp add: should_keep_file_open_def module_globals_def Let_def)



lemma init_keeps_arguments:
  "fst (ArrayProxy_init g c fl sp mmap kfo w) = Inr p \<Longrightarrow>
   should_keep_file_open g fl kfo = Inr (self_keep_file_open p) \<and> self_mmap p = mmap
   \<and> file_like p = fl"
  by (auto simp: ArrayProxy_init_def spec_par_def header_copy_def RLock_def Let_def
      split: spec.splits sum.splits list.splits prod.splits if_splits)

text \<open>
  Claim C10.  The result of \<open>reshape\<close> does not depend on the keep-open flag of the
  parent; the flag of the child is what the keep-open decision returns for the parent's
  source when no argument is passed, that is the one derived from the module default,
  and the child's mmap mode is the parent's.
\<close>

theorem reshape_rederives_keep_open:
  "reshape g c (self\<lparr>self_keep_file_open := k1\<rparr>) shape w = reshape g c self shape w
   \<and> (fst (reshape g c self shape w) = Inr child \<longrightarrow>
        should_keep_file_open g (file_like self) PNone = Inr (self_keep_file_open child)
        \<and> self_mmap child = self_mmap self)"
proof -
  have 1: "reshape g c (self\<lparr>self_keep_file_open := k1\<rparr>) shape w = reshape g c self shape w"
    by (simp add: reshape_def Let_def split: sum.splits)
  have 2: "should_keep_file_open g (file_like self) PNone = Inr (self_keep_file_open child)
           \<and> self_mmap child = self_mmap self"
    if "fst (reshape g c self shape w) = Inr child"
    using that init_keeps_arguments [of g c "file_like self" _ "self_mmap self" PNone w child]
    by (auto simp: reshape_def Let_def split: sum.splits if_splits)
  show ?thesis using 1 2 by blast
qed

theorem reshape_rederives_keep_open_witness:
  "fst (reshape (module_globals False) demo_collab (demo_proxy (PBool True)) [8, 4] world1)
     = Inr ((demo_proxy (PBool False))\<lparr>self_shape := PShape [8, 4], self_lock := Some 1\<rparr>)
   \<and> self_keep_file_open (demo_proxy (PBool True)) = PBool True
   \<and> self_keep_file_open
        ((demo_proxy (PBool False))\<lparr>self_shape := PShape [8, 4], self_lock := Some 1\<rparr>) = PBool False
   \<and> should_keep_file_open (module_globals False) (file_like (demo_proxy (PBool True))) PNone
        = Inr (PBool False)
   \<and> self_mmap ((demo_proxy (PBool False))\<lparr>self_shape := PShape [8, 4], self_lock := Some 1\<rparr>)
        = self_mmap (demo_proxy (PBool True))"
proof -
  let ?child = "(demo_proxy (PBool False))\<lparr>self_shape := PShape [8, 4], self_lock := Some 1\<rparr>"
  have h: "fst (reshape (module_globals False) demo_collab (demo_proxy (PBool True)) [8, 4] world1)
             = Inr ?child"
    by (simp add: reshape_def np_prod_def deref_def fits64_def wrap64_def demo_proxy_def
        init_tuple5 np_dtype_idem module_default_keep world1_def world0_def)
  note t = reshape_rederives_keep_open
      [where g = "module_globals False" and c = demo_collab and self = "demo_proxy (PBool True)"
         and shape = "[8, 4]" and w = world1 and child = ?child,
       THEN conjunct2, THEN mp, OF h]
  show ?thesis
    using h t by (simp add: demo_proxy_def)
qed

section \<open>Properties of the constructor\<close>

lemma par_of_tuple:
  assumes "2 \<le> length t" "length t \<le> 5"
  shows "t @ drop (length t - 2) [PInt 0, PFloat 1, PFloat 0] =
           [t ! 0, t ! 1,
            (if 2 < length t then t ! 2 else PInt 0),
            (if 3 < length t then t ! 3 else PFloat 1),
            (if 4 < length t then t ! 4 else PFloat 0)]"
proof -
  from assms have "length t = 2 \<or> length t = 3 \<or> length t = 4 \<or> length t = 5" by arith
  then show ?thesis
    by (elim disjE) (auto simp: numeral_eq_Suc length_Suc_conv)
qed

lemma init_tuple:
  assumes "py_in mmap [PBool True, PBool False, PStr ''c'', PStr ''r'']"
    and "2 \<le> length t" "length t \<le> 5"
  shows "ArrayProxy_init g c fl (SpecTuple t) mmap kfo w =
           (case np_dtype c (t ! 1) of
              Inl e \<Rightarrow> (Inl e, w)
            | Inr dt \<Rightarrow>
                (case should_keep_file_open g fl kfo of
                   Inl e \<Rightarrow> (Inl e, w)
                 | Inr k \<Rightarrow>
                   (Inr \<lparr>file_like = fl, self_header = None, self_shape = t ! 0, self_dtype = dt,
                         self_offset = (if 2 < length t then t ! 2 else PInt 0),
                         self_slope = (if 3 < length t then t ! 3 else PFloat 1),
                         self_inter = (if 4 < length t then t ! 4 else PFloat 0),
                         self_mmap = mmap, self_keep_file_open = k, self_opener = NoAttr,
                         self_lock = Some (locks w)\<rparr>,
                    w\<lparr>locks := Suc (locks w)\<rparr>)))"
  using assms
  by (simp add: ArrayProxy_init_def spec_par_def par_of_tuple RLock_def Let_def
      split: sum.splits del: py_in.simps)

lemma init_header:
  assumes "py_in mmap [PBool True, PBool False, PStr ''c'', PStr ''r'']"
    and "a < length (headers w)"
  shows "ArrayProxy_init g c fl (SpecHeader a) mmap kfo w =
           (case np_dtype c (hdr_dtype (headers w ! a)) of
              Inl e \<Rightarrow> (Inl e, w\<lparr>headers := headers w @ [headers w ! a]\<rparr>)
            | Inr dt \<Rightarrow>
                (case should_keep_file_open g fl kfo of
                   Inl e \<Rightarrow> (Inl e, w\<lparr>headers := headers w @ [headers w ! a]\<rparr>)
                 | Inr k \<Rightarrow>
                   (Inr \<lparr>file_like = fl, self_header = Some (length (headers w)),
                         self_shape = hdr_shape (headers w ! a), self_dtype = dt,
                         self_offset = hdr_offset (headers w ! a),
                         self_slope = (if hdr_slope (headers w ! a) = PNone then PFloat 1
                                       else hdr_slope (headers w ! a)),
                         self_inter = (if hdr_inter (headers w ! a) = PNone then PFloat 0
                                       else hdr_inter (headers w ! a)),
                         self_mmap = mmap, self_keep_file_open = k, self_opener = NoAttr,
                         self_lock = Some (locks w)\<rparr>,
                    w\<lparr>headers := headers w @ [headers w ! a], locks := Suc (locks w)\<rparr>)))"
  using assms
  by (simp add: ArrayProxy_init_def spec_par_def header_copy_def RLock_def Let_def
      split: sum.splits del: py_in.simps)

lemma init_bad_length:
  assumes "py_in mmap [PBool True, PBool False, PStr ''c'', PStr ''r'']"
    and "\<not> (2 \<le> length t \<and> length t \<le> 5)"
  shows "ArrayProxy_init g c fl (SpecTuple t) mmap kfo w =
           (Inl (TypeError ''spec must be tuple of length 2-5 or header object''), w)"
  using assms
  by (auto simp add: ArrayProxy_init_def spec_par_def simp del: py_in.simps)

text \<open>
  Claim C7.  With a valid \<open>mmap\<close> argument and a keep-open argument that the decision
  accepts: a tuple of length 2 to 5 gives a proxy whose shape is the first element,
  whose dtype is \<open>numpy.dtype\<close> of the second, and whose offset, slope and intercept
  are the third, fourth and fifth element where present and \<open>0\<close>, \<open>1.0\<close> and \<open>0.0\<close>
  where not; a header gives a proxy with the header's shape, normalised dtype and
  offset, with slope and intercept \<open>1.0\<close> and \<open>0.0\<close> where the header reports \<open>None\<close>,
  and with a reference to a copy of the header; a tuple of any other length raises the
  \<open>TypeError\<close> of the constructor; and a dtype specifier that \<open>numpy.dtype\<close> does not
  understand raises numpy's \<open>TypeError\<close>.
\<close>

theorem spec_resolver:
  assumes "py_in mmap [PBool True, PBool False, PStr ''c'', PStr ''r'']"
    and "should_keep_file_open g fl kfo = Inr k"
  shows
    "(2 \<le> length t \<and> length t \<le> 5 \<and> np_dtype c (t ! 1) = Inr dt \<longrightarrow>
        ArrayProxy_init g c fl (SpecTuple t) mmap kfo w =
          (Inr \<lparr>file_like = fl, self_header = None, self_shape = t ! 0, self_dtype = dt,
                self_offset = (if 2 < length t then t ! 2 else PInt 0),
                self_slope = (if 3 < length t then t ! 3 else PFloat 1),
                self_inter = (if 4 < length t then t ! 4 else PFloat 0),
                self_mmap = mmap, self_keep_file_open = k, self_opener = NoAttr,
                self_lock = Some (locks w)\<rparr>,
           w\<lparr>locks := Suc (locks w)\<rparr>))
     \<and> (a < length (headers v) \<and> np_dtype c (hdr_dtype (headers v ! a)) = Inr dh \<longrightarrow>
        ArrayProxy_init g c fl (SpecHeader a) mmap kfo v =
          (Inr \<lparr>file_like = fl, self_header = Some (length (headers v)),
                self_shape = hdr_shape (headers v ! a), self_dtype = dh,
                self_offset = hdr_offset (headers v ! a),
                self_slope = (if hdr_slope (headers v ! a) = PNone then PFloat 1
                              else hdr_slope (headers v ! a)),
                self_inter = (if hdr_inter (headers v ! a) = PNone then PFloat 0
                              else hdr_inter (headers v ! a)),
                self_mmap = mmap, self_keep_file_open = k, self_opener = NoAttr,
                self_lock = Some (locks v)\<rparr>,
           v\<lparr>headers := headers v @ [headers v ! a], locks := Suc (locks v)\<rparr>))
     \<and> (\<not> (2 \<le> length t1 \<and> length t1 \<le> 5) \<longrightarrow>
        ArrayProxy_init g c fl (SpecTuple t1) mmap kfo u =
          (Inl (TypeError ''spec must be tuple of length 2-5 or header object''), u))
     \<and> (2 \<le> length t2 \<and> length t2 \<le> 5 \<and> np_dtype c (t2 ! 1) = Inl e \<longrightarrow>
        ArrayProxy_init g c fl (SpecTuple t2) mmap kfo u2 = (Inl e, u2)
        \<and> e = TypeError ''data type not understood'')
     \<and> (b < length (headers v2) \<and> np_dtype c (hdr_dtype (headers v2 ! b)) = Inl e2 \<longrightarrow>
        fst (ArrayProxy_init g c fl (SpecHeader b) mmap kfo v2) = Inl e2
        \<and> e2 = TypeError ''data type not understood'')"
proof -
  have e: "x = TypeError ''data type not understood''" if "np_dtype c y = Inl x" for x y
    using that by (auto simp: np_dtype_def split: pyobj.splits option.splits)
  show ?thesis
    using assms(2) e [of "t2 ! 1" e] e [of "hdr_dtype (headers v2 ! b)" e2]
    by (simp add: init_tuple [OF assms(1)] init_header [OF assms(1)]
        init_bad_length [OF assms(1)] del: py_in.simps)
qed

theorem spec_resolver_witness:
  "py_in (PBool True) [PBool True, PBool False, PStr ''c'', PStr ''r'']
   \<and> should_keep_file_open (module_globals False) (Filename ''data.nii'') (PBool True)
       = Inr (PBool True)
   \<and> ArrayProxy_init (module_globals False) demo_collab (Filename ''data.nii'')
        (SpecTuple [PShape [4, 4, 2], PStr ''int16'']) (PBool True) (PBool True) world0
       = (Inr (demo_proxy (PBool True)), world1)
   \<and> ArrayProxy_init (module_globals False) demo_collab (Filename ''data.nii'')
        (SpecHeader 0) (PBool True) (PBool True) header_world
       = (Inr ((demo_proxy (PBool True))
                 \<lparr>self_header := Some 1, self_offset := PInt 352, self_slope := PFloat 2\<rparr>),
          header_world\<lparr>headers := [demo_header, demo_header], locks := 1\<rparr>)
   \<and> ArrayProxy_init (module_globals False) demo_collab (Filename ''data.nii'')
        (SpecTuple [PShape [4, 4, 2]]) (PBool True) (PBool True) world0
       = (Inl (TypeError ''spec must be tuple of length 2-5 or header object''), world0)
   \<and> ArrayProxy_init (module_globals False) demo_collab (Filename ''data.nii'')
        (SpecTuple [PShape [4, 4, 2], PStr ''no such type'', PInt 0]) (PBool True) (PBool True)
        world0
       = (Inl (TypeError ''data type not understood''), world0)
   \<and> fst (ArrayProxy_init (module_globals False) demo_collab (Filename ''data.nii'')
             (SpecHeader 0) (PBool True) (PBool True)
             (world0\<lparr>headers := [demo_header\<lparr>hdr_dtype := PStr ''no such type''\<rparr>]\<rparr>))
       = Inl (TypeError ''data type not understood'')"
proof -
  have h1: "py_in (PBool True) [PBool True, PBool False, PStr ''c'', PStr ''r'']"
    by simp
  have h2: "should_keep_file_open (module_globals False) (Filename ''data.nii'') (PBool True)
              = Inr (PBool True)"
    by (simp add: should_keep_file_open_def Let_def)
  have d1: "np_dtype demo_collab (PStr ''int16'') = Inr (PDtype ''int16'')"
    and d2: "np_dtype demo_collab (PStr ''no such type'')
               = Inl (TypeError ''data type not understood'')"
    by (simp_all add: np_dtype_def demo_collab_def)
  note t = spec_resolver [OF h1 h2,
      where c = demo_collab
        and t = "[PShape [4, 4, 2], PStr ''int16'']" and dt = "PDtype ''int16''" and w = world0
        and a = 0 and v = header_world and dh = "PDtype ''int16''"
        and ?t1.0 = "[PShape [4, 4, 2]]" and u = world0
        and ?t2.0 = "[PShape [4, 4, 2], PStr ''no such type'', PInt 0]"
        and e = "TypeError ''data type not understood''" and ?u2.0 = world0
        and b = 0
        and ?v2.0 = "world0\<lparr>headers := [demo_header\<lparr>hdr_dtype := PStr ''no such type''\<rparr>]\<rparr>"
        and ?e2.0 = "TypeError ''data type not understood''"]
  have a: "ArrayProxy_init (module_globals False) demo_collab (Filename ''data.nii'')
        (SpecTuple [PShape [4, 4, 2], PStr ''int16'']) (PBool True) (PBool True) world0
       = (Inr (demo_proxy (PBool True)), world1)"
    using t [THEN conjunct1] d1 by (simp add: demo_proxy_def world1_def world0_def)
  have b: "ArrayProxy_init (module_globals False) demo_collab (Filename ''data.nii'')
        (SpecHeader 0) (PBool True) (PBool True) header_world
       = (Inr ((demo_proxy (PBool True))
                 \<lparr>self_header := Some 1, self_offset := PInt 352, self_slope := PFloat 2\<rparr>),
          header_world\<lparr>headers := [demo_header, demo_header], locks := 1\<rparr>)"
    using t [THEN conjunct2, THEN conjunct1] d1
    by (simp add: demo_proxy_def header_world_def world0_def demo_header_def)
  have c: "ArrayProxy_init (module_globals False) demo_collab (Filename ''data.nii'')
        (SpecTuple [PShape [4, 4, 2]]) (PBool True) (PBool True) world0
       = (Inl (TypeError ''spec must be tuple of length 2-5 or header object''), world0)"
    using t [THEN conjunct2, THEN conjunct2, THEN conjunct1] by simp
  have d: "ArrayProxy_init (module_globals False) demo_collab (Filename ''data.nii'')
        (SpecTuple [PShape [4, 4, 2], PStr ''no such type'', PInt 0]) (PBool True) (PBool True)
        world0
       = (Inl (TypeError ''data type not understood''), world0)"
    using t [THEN conjunct2, THEN conjunct2, THEN conjunct2, THEN conjunct1] d2 by simp
  have e: "fst (ArrayProxy_init (module_globals False) demo_collab (Filename ''data.nii'')
             (SpecHeader 0) (PBool True) (PBool True)
             (world0\<lparr>headers := [demo_header\<lparr>hdr_dtype := PStr ''no such type''\<rparr>]\<rparr>))
       = Inl (TypeError ''data type not understood'')"
    using t [THEN conjunct2, THEN conjunct2, THEN conjunct2, THEN conjunct2] d2 by simp
  show ?thesis
    using h1 h2 a b c d e by simp
qed

section \<open>Properties of the scaled reads\<close>

lemma deref_cells: "cells w1 = cells w \<Longrightarrow> deref w1 v = deref w v"
  by (simp add: deref_def split: pyobj.splits)

lemma get_fileobj_cells:
  assumes "\<And>fo u. cells (snd (body fo u)) = cells u"
  shows "cells (snd (snd (get_fileobj c self w body))) = cells w"
proof -
  have b: "cells u' = cells u" if "body fo u = (r, u')" for fo u r u'
    using assms [of fo u] that by simp
  show ?thesis
    by (cases "self_opener self")
       (auto simp: get_fileobj_def ImageOpener_def opener_exit_def close_if_mine_def
          set_closed_def Let_def dest!: b split: sum.splits prod.splits option.splits)
qed

lemma get_unscaled_cells: "cells (snd (snd (get_unscaled c self w))) = cells w"
  unfolding get_unscaled_def
  by (rule get_fileobj_cells)
     (simp add: acquire_def release_def Let_def split: option.splits)

lemma getitem_unscaled_cells: "cells (snd (snd (getitem_unscaled c self slicer w))) = cells w"
  unfolding getitem_unscaled_def
  by (rule get_fileobj_cells) (simp split: option.splits)

lemma scaling_affine:
  "apply_read_scaling_spec raw s i = map (\<lambda>x. x * s + i) raw"
  by (simp add: apply_read_scaling_spec_def map_idI)

lemma array_scaled:
  assumes "scales_as_spec c"
    and "num_of (deref w (self_slope self)) = Some s"
    and "num_of (deref w (self_inter self)) = Some i"
    and "fst (get_unscaled c self w) = Inr raw"
  shows "ArrayProxy_array c self w
           = (Inr (apply_read_scaling_spec raw s i), snd (get_unscaled c self w))"
proof -
  obtain self1 w1 where g: "get_unscaled c self w = (Inr raw, self1, w1)"
    using assms(4) by (cases "get_unscaled c self w") auto
  have "cells w1 = cells w"
    using get_unscaled_cells [of c self w] by (simp add: g)
  then have d: "deref w1 v = deref w v" for v
    by (rule deref_cells)
  show ?thesis
    using assms(1-3) by (simp add: ArrayProxy_array_def g d scales_as_spec_def)
qed

lemma getitem_scaled:
  assumes "scales_as_spec c"
    and "num_of (deref w (self_slope self)) = Some s"
    and "num_of (deref w (self_inter self)) = Some i"
    and "fst (getitem_unscaled c self slicer w) = Inr sub"
  shows "ArrayProxy_getitem c self slicer w
           = (Inr (apply_read_scaling_spec sub s i), snd (getitem_unscaled c self slicer w))"
proof -
  obtain self1 w1 where g: "getitem_unscaled c self slicer w = (Inr sub, self1, w1)"
    using assms(4) by (cases "getitem_unscaled c self slicer w") auto
  have "cells w1 = cells w"
    using getitem_unscaled_cells [of c self slicer w] by (simp add: g)
  then have d: "deref w1 v = deref w v" for v
    by (rule deref_cells)
  show ?thesis
    using assms(1-3) by (simp add: ArrayProxy_getitem_def g d scales_as_spec_def)
qed

text \<open>
  Claim C5.  With the scaling of the spec, and slope \<open>s\<close> and intercept \<open>i\<close> the
  numbers that the proxy's slope and intercept denote: when the raw read returns the
  array \<open>raw\<close>, \<open>__array__\<close> returns \<open>raw * s + i\<close> element by element, and when the
  raw slice read returns \<open>sub\<close>, \<open>__getitem__\<close> returns \<open>sub * s + i\<close> element by
  element; the handle and the world are those of the raw read.  When \<open>s = 1\<close> and
  \<open>i = 0\<close> the result is the raw array itself, which is what the formula gives as well.
\<close>

theorem scaled_reads_are_affine:
  assumes "scales_as_spec c"
    and "num_of (deref w (self_slope self)) = Some s"
    and "num_of (deref w (self_inter self)) = Some i"
  shows
    "(fst (get_unscaled c self w) = Inr raw \<longrightarrow>
        ArrayProxy_array c self w
          = (Inr (map (\<lambda>x. x * s + i) raw), snd (get_unscaled c self w))
        \<and> (s = 1 \<and> i = 0 \<longrightarrow> fst (ArrayProxy_array c self w) = Inr raw))
     \<and> (fst (getitem_unscaled c self slicer w) = Inr sub \<longrightarrow>
        ArrayProxy_getitem c self slicer w
          = (Inr (map (\<lambda>x. x * s + i) sub), snd (getitem_unscaled c self slicer w))
        \<and> (s = 1 \<and> i = 0 \<longrightarrow> fst (ArrayProxy_getitem c self slicer w) = Inr sub))"
proof -
  have a: "ArrayProxy_array c self w
             = (Inr (map (\<lambda>x. x * s + i) raw), snd (get_unscaled c self w))
           \<and> (s = 1 \<and> i = 0 \<longrightarrow> fst (ArrayProxy_array c self w) = Inr raw)"
    if "fst (get_unscaled c self w) = Inr raw"
    using array_scaled [OF assms that]
    by (simp add: scaling_affine [symmetric]) (simp add: apply_read_scaling_spec_def)
  have g: "ArrayProxy_getitem c self slicer w
             = (Inr (map (\<lambda>x. x * s + i) sub), snd (getitem_unscaled c self slicer w))
           \<and> (s = 1 \<and> i = 0 \<longrightarrow> fst (ArrayProxy_getitem c self slicer w) = Inr sub)"
    if "fst (getitem_unscaled c self slicer w) = Inr sub"
    using getitem_scaled [OF assms that]
    by (simp add: scaling_affine [symmetric]) (simp add: apply_read_scaling_spec_def)
  show ?thesis using a g by blast
qed

lemma scaling_collab_as_spec: "scales_as_spec scaling_collab"
  by (simp add: scales_as_spec_def scaling_collab_def)

lemma scaling_collab_unscaled:
  assumes "\<not> truthy (self_keep_file_open self)" "self_lock self = Some l"
  shows "fst (get_unscaled scaling_collab self w) = Inr [0, 1, 2, 3]"
  using assms
  by (simp add: get_unscaled_def get_fileobj_def ImageOpener_def scaling_collab_def
      acquire_def release_def fileobj_of_def opener_at_def Let_def nth_append)

lemma scaling_collab_slice:
  assumes "\<not> truthy (self_keep_file_open self)" "self_lock self = Some l"
  shows "fst (getitem_unscaled scaling_collab self n w) = Inr [real n]"
  using assms
  by (simp add: getitem_unscaled_def get_fileobj_def ImageOpener_def scaling_collab_def
      fileobj_of_def opener_at_def Let_def nth_append)

theorem scaled_reads_are_affine_witness:
  "scales_as_spec scaling_collab
   \<and> num_of (deref world1 (self_slope scaled_proxy)) = Some 2
   \<and> num_of (deref world1 (self_inter scaled_proxy)) = Some 100
   \<and> fst (get_unscaled scaling_collab scaled_proxy world1) = Inr [0, 1, 2, 3]
   \<and> fst (ArrayProxy_array scaling_collab scaled_proxy world1) = Inr [100, 102, 104, 106]
   \<and> fst (getitem_unscaled scaling_collab scaled_proxy 3 world1) = Inr [3]
   \<and> fst (ArrayProxy_getitem scaling_collab scaled_proxy 3 world1) = Inr [106]
   \<and> num_of (deref world1 (self_slope (demo_proxy (PBool False)))) = Some 1
   \<and> num_of (deref world1 (self_inter (demo_proxy (PBool False)))) = Some 0
   \<and> fst (get_unscaled scaling_collab (demo_proxy (PBool False)) world1) = Inr [0, 1, 2, 3]
   \<and> fst (ArrayProxy_array scaling_collab (demo_proxy (PBool False)) world1) = Inr [0, 1, 2, 3]"
proof -
  let ?q = "demo_proxy (PBool False)"
  have s2: "num_of (deref world1 (self_slope scaled_proxy)) = Some 2"
    and i2: "num_of (deref world1 (self_inter scaled_proxy)) = Some 100"
    by (simp_all add: scaled_proxy_def demo_proxy_def deref_def num_of_def)
  have s1: "num_of (deref world1 (self_slope ?q)) = Some 1"
    and i1: "num_of (deref world1 (self_inter ?q)) = Some 0"
    by (simp_all add: demo_proxy_def deref_def num_of_def)
  have u2: "fst (get_unscaled scaling_collab scaled_proxy world1) = Inr [0, 1, 2, 3]"
    using scaling_collab_unscaled [of scaled_proxy 0 world1]
    by (simp add: scaled_proxy_def demo_proxy_def)
  have g2: "fst (getitem_unscaled scaling_collab scaled_proxy 3 world1) = Inr [3]"
    using scaling_collab_slice [of scaled_proxy 0 3 world1]
    by (simp add: scaled_proxy_def demo_proxy_def)
  have u1: "fst (get_unscaled scaling_collab ?q world1) = Inr [0, 1, 2, 3]"
    using scaling_collab_unscaled [of ?q 0 world1]
    by (simp add: demo_proxy_def)
  note t2 = scaled_reads_are_affine [OF scaling_collab_as_spec s2 i2,
      where raw = "[0, 1, 2, 3]" and slicer = 3 and sub = "[3]"]
  note t1 = scaled_reads_are_affine [OF scaling_collab_as_spec s1 i1,
      where raw = "[0, 1, 2, 3]" and slicer = 3 and sub = "[3]"]
  have a2: "fst (ArrayProxy_array scaling_collab scaled_proxy world1) = Inr [100, 102, 104, 106]"
    using t2 [THEN conjunct1, THEN mp, OF u2, THEN conjunct1] by simp
  have b2: "fst (ArrayProxy_getitem scaling_collab scaled_proxy 3 world1) = Inr [106]"
    using t2 [THEN conjunct2, THEN mp, OF g2, THEN conjunct1] by simp
  have a1: "fst (ArrayProxy_array scaling_collab ?q world1) = Inr [0, 1, 2, 3]"
    using t1 [THEN conjunct1, THEN mp, OF u1, THEN conjunct2] by simp
  show ?thesis
    using scaling_collab_as_spec s2 i2 u2 a2 g2 b2 s1 i1 u1 a1 by simp
qed

section \<open>Properties of the constructor under mutation\<close>

text \<open>
  Claim C8: the code does not keep what the claim and the docstring of the module
  promise.  The header holds a mutable object of value 2 as its slope, and its
  \<open>get_slope_inter\<close> returns that object.  The constructor binds the object to
  \<open>_slope\<close>; it copies the header, not the objects that the accessors return.  Before
  the mutation the proxy shows slope 2 and materialises the raw values 0, 1, 2, 3 as
  100, 102, 104, 106; after the caller has set the object to 7 the same proxy shows
  slope 7 and materialises 100, 107, 114, 121.
\<close>

theorem header_object_mutation_reaches_proxy:
  "ArrayProxy_init (module_globals False) scaling_collab (Filename ''data.nii'')
     (SpecHeader 0) (PBool True) (PBool False) mutable_world
     = (Inr aliased_proxy, mutable_world1)
   \<and> deref mutable_world1 (self_slope aliased_proxy) = PFloat 2
   \<and> fst (ArrayProxy_array scaling_collab aliased_proxy mutable_world1)
       = Inr [100, 102, 104, 106]
   \<and> deref (mutate_object 0 (PFloat 7) mutable_world1) (self_slope aliased_proxy) = PFloat 7
   \<and> fst (ArrayProxy_array scaling_collab aliased_proxy
            (mutate_object 0 (PFloat 7) mutable_world1))
       = Inr [100, 107, 114, 121]"
proof -
  have i: "ArrayProxy_init (module_globals False) scaling_collab (Filename ''data.nii'')
             (SpecHeader 0) (PBool True) (PBool False) mutable_world
             = (Inr aliased_proxy, mutable_world1)"
    by (simp add: ArrayProxy_init_def spec_par_def header_copy_def np_dtype_def
        scaling_collab_def should_keep_file_open_def RLock_def Let_def mutable_world_def
        mutable_world1_def mutable_header_def demo_header_def aliased_proxy_def demo_proxy_def
        world0_def)
  have d2: "deref mutable_world1 (self_slope aliased_proxy) = PFloat 2"
    and d7: "deref (mutate_object 0 (PFloat 7) mutable_world1) (self_slope aliased_proxy)
               = PFloat 7"
    and di: "deref w (self_inter aliased_proxy) = PFloat 100" for w
    by (simp_all add: deref_def aliased_proxy_def mutable_world1_def mutable_world_def
        mutate_object_def world0_def)
  have u: "fst (get_unscaled scaling_collab aliased_proxy w) = Inr [0, 1, 2, 3]" for w
    using scaling_collab_unscaled [of aliased_proxy 0 w]
    by (simp add: aliased_proxy_def demo_proxy_def)
  have a2: "fst (ArrayProxy_array scaling_collab aliased_proxy mutable_world1)
              = Inr [100, 102, 104, 106]"
    by (subst array_scaled [OF scaling_collab_as_spec _ _ u, where s = 2 and i = 100])
       (simp_all add: d2 di num_of_def apply_read_scaling_spec_def)
  have a7: "fst (ArrayProxy_array scaling_collab aliased_proxy
                   (mutate_object 0 (PFloat 7) mutable_world1))
              = Inr [100, 107, 114, 121]"
    by (subst array_scaled [OF scaling_collab_as_spec _ _ u, where s = 7 and i = 100])
       (simp_all add: d7 di num_of_def apply_read_scaling_spec_def)
  show ?thesis
    using i d2 a2 d7 a7 by simp
qed

section \<open>Properties of the lock\<close>

lemma get_unscaled_first:
  assumes "truthy (self_keep_file_open self)" "self_opener self = NoAttr"
    "can_open c (file_like self)" "self_lock self = Some l"
  shows "snd (get_unscaled c self w) =
           (self\<lparr>self_opener := OpenerRef (length (openers w))\<rparr>,
            w\<lparr>openers := openers w @ [new_opener (file_like self) (Some (self_keep_file_open self))],
              trace := trace w @ [Opened (length (openers w)), Acquired l,
                                  ReadFrom (Some (length (openers w))), Released l]\<rparr>)"
  using read_first [OF assms(1-3), of GetUnscaled w] assms(4)
  by (simp add: read_def read_events_def)

lemma read_open_fails:
  assumes "truthy (self_keep_file_open self)" "self_opener self = NoAttr"
    "\<not> can_open c (file_like self)"
  shows "read c self rop w = (Inl IOError, self, w)"
  using assms
  by (cases rop)
     (simp_all add: read_def get_unscaled_def ArrayProxy_array_def ArrayProxy_getitem_def getitem_unscaled_def
        get_fileobj_def ImageOpener_def)

text \<open>
  Claim C2 does not hold as stated.  In the first \<open>get_unscaled\<close> of a proxy with the
  keep-open flag set the handle is opened first and the lock is acquired afterwards:
  the handle is not created while the lock is held.
\<close>

theorem creation_outside_lock_counterexample:
  "truthy (self_keep_file_open (demo_proxy (PBool True)))
   \<and> self_opener (demo_proxy (PBool True)) = NoAttr
   \<and> self_lock (demo_proxy (PBool True)) = Some 0
   \<and> trace (snd (snd (get_unscaled demo_collab (demo_proxy (PBool True)) world1)))
       = [Opened 0, Acquired 0, ReadFrom (Some 0), Released 0]
   \<and> \<not> opens_under_lock 0 0
         (trace (snd (snd (get_unscaled demo_collab (demo_proxy (PBool True)) world1))))"
proof -
  have "snd (get_unscaled demo_collab (demo_proxy (PBool True)) world1) =
          ((demo_proxy (PBool True))\<lparr>self_opener := OpenerRef 0\<rparr>,
           world1\<lparr>openers := [new_opener (Filename ''data.nii'') (Some (PBool True))],
                  trace := [Opened 0, Acquired 0, ReadFrom (Some 0), Released 0]\<rparr>)"
    by (subst get_unscaled_first [where l = 0])
       (simp_all add: demo_proxy_def demo_collab_def world1_def world0_def)
  then show ?thesis
    by (simp add: demo_proxy_def)
qed

text \<open>
  Claim C2, amended.  With the keep-open flag set and no opener cached, the handle
  provider creates the persistent handle before the lock is acquired; the lock is held
  around the read only.  When the reads follow one another, any non-empty sequence of
  them creates exactly one handle.  When the creation fails the error is raised, no
  opener is cached and the world is unchanged.
\<close>

theorem handle_created_before_lock:
  "(truthy (self_keep_file_open self) \<and> self_opener self = NoAttr
      \<and> can_open c (file_like self) \<and> self_lock self = Some l \<longrightarrow>
      snd (get_unscaled c self w) =
        (self\<lparr>self_opener := OpenerRef (length (openers w))\<rparr>,
         w\<lparr>openers := openers w @ [new_opener (file_like self) (Some (self_keep_file_open self))],
           trace := trace w @ [Opened (length (openers w)), Acquired l,
                               ReadFrom (Some (length (openers w))), Released l]\<rparr>))
   \<and> (truthy (self_keep_file_open p) \<and> self_opener p = NoAttr
      \<and> can_open c (file_like p) \<and> rops \<noteq> [] \<longrightarrow>
      length (openers (snd (snd (reads c p rops u)))) = Suc (length (openers u))
      \<and> opens_in (trace (snd (snd (reads c p rops u)))) = Suc (opens_in (trace u)))
   \<and> (truthy (self_keep_file_open q) \<and> self_opener q = NoAttr
      \<and> \<not> can_open c (file_like q) \<longrightarrow>
      read c q rop v = (Inl IOError, q, v))"
proof -
  have 2: "length (openers (snd (snd (reads c p rops u)))) = Suc (length (openers u))
      \<and> opens_in (trace (snd (snd (reads c p rops u)))) = Suc (opens_in (trace u))"
    if "truthy (self_keep_file_open p)" "self_opener p = NoAttr"
      "can_open c (file_like p)" "rops \<noteq> []"
  proof -
    have "opens_in (Opened h # reads_events p rops (Some h)) = 1" for h
      using quiet_on_reads_events [of h p rops] by (simp add: quiet_on_def opens_in_def)
    then show ?thesis
      by (simp add: reads_first [OF that])
  qed
  show ?thesis
    using get_unscaled_first [of self c l w] 2 read_open_fails [of q c rop v]
    by blast
qed

theorem handle_created_before_lock_witness:
  "truthy (self_keep_file_open (demo_proxy (PBool True)))
   \<and> self_opener (demo_proxy (PBool True)) = NoAttr
   \<and> can_open demo_collab (file_like (demo_proxy (PBool True)))
   \<and> self_lock (demo_proxy (PBool True)) = Some 0
   \<and> ten_reads \<noteq> []
   \<and> \<not> can_open demo_collab (Filename ''missing.nii'')
   \<and> trace (snd (snd (get_unscaled demo_collab (demo_proxy (PBool True)) world1)))
       = [Opened 0, Acquired 0, ReadFrom (Some 0), Released 0]
   \<and> length (openers (snd (snd (reads demo_collab (demo_proxy (PBool True)) ten_reads world1))))
       = 1
   \<and> opens_in (trace (snd (snd (reads demo_collab (demo_proxy (PBool True)) ten_reads world1))))
       = 1
   \<and> read demo_collab ((demo_proxy (PBool True))\<lparr>file_like := Filename ''missing.nii''\<rparr>)
         (Array :: nat read_op) world1
       = (Inl IOError, (demo_proxy (PBool True))\<lparr>file_like := Filename ''missing.nii''\<rparr>, world1)"
proof -
  let ?p = "demo_proxy (PBool True)"
  let ?q = "(demo_proxy (PBool True))\<lparr>file_like := Filename ''missing.nii''\<rparr>"
  have h1: "truthy (self_keep_file_open ?p) \<and> self_opener ?p = NoAttr
            \<and> can_open demo_collab (file_like ?p) \<and> self_lock ?p = Some 0"
    by (simp add: demo_proxy_def demo_collab_def)
  have h2: "truthy (self_keep_file_open ?p) \<and> self_opener ?p = NoAttr
            \<and> can_open demo_collab (file_like ?p) \<and> ten_reads \<noteq> []"
    by (simp add: demo_proxy_def demo_collab_def ten_reads_def)
  have h3: "truthy (self_keep_file_open ?q) \<and> self_opener ?q = NoAttr
            \<and> \<not> can_open demo_collab (file_like ?q)"
    by (simp add: demo_proxy_def demo_collab_def)
  note t = handle_created_before_lock
      [where self = ?p and c = demo_collab and l = 0 and w = world1 and p = ?p
         and rops = ten_reads and u = world1 and q = ?q and rop = "Array :: nat read_op"
         and v = world1]
  note a = t [THEN conjunct1, THEN mp, OF h1]
  note b = t [THEN conjunct2, THEN conjunct1, THEN mp, OF h2]
  note c = t [THEN conjunct2, THEN conjunct2, THEN mp, OF h3]
  have a': "trace (snd (snd (get_unscaled demo_collab ?p world1)))
              = [Opened 0, Acquired 0, ReadFrom (Some 0), Released 0]"
    unfolding a by (simp add: world1_def world0_def)
  have w: "openers world1 = []" "trace world1 = []"
    by (simp_all add: world1_def world0_def)
  have n: "\<not> can_open demo_collab (Filename ''missing.nii'')"
    by (simp add: demo_collab_def)
  show ?thesis
    using h1 h2 n a' b c by (simp add: w opens_in_def)
qed

text \<open>
  A thread that runs alone does what \<open>get_unscaled\<close> does.  Two threads that both test
  for the cached opener before either has assigned it both create one: nothing
  serialises the creation.
\<close>

lemma single_thread_is_get_unscaled:
  assumes "truthy (self_keep_file_open self)"
  shows "snd (run_threads c [0, 0, 0, 0, 0, 0, 0]
                ([thread0], \<lparr>sh_proxy = self, sh_world = w, sh_owner = None\<rparr>)) =
           \<lparr>sh_proxy = fst (snd (get_unscaled c self w)),
            sh_world = snd (snd (get_unscaled c self w)), sh_owner = None\<rparr>"
  using assms
  by (cases "self_opener self"; cases "self_lock self"; cases "can_open c (file_like self)")
     (simp_all add: thread_step_def thread0_def get_unscaled_def get_fileobj_def
        ImageOpener_def acquire_def release_def Let_def)

lemma two_threads_open_two_handles:
  "length (openers (sh_world (snd (run_threads demo_collab
             [0, 1, 0, 1, 0, 1, 0, 0, 0, 0, 1, 1, 1, 1] two_threads)))) = 2
   \<and> trace (sh_world (snd (run_threads demo_collab
             [0, 1, 0, 1, 0, 1, 0, 0, 0, 0, 1, 1, 1, 1] two_threads))) =
       [Opened 0, Opened 1, Acquired 0, ReadFrom (Some 1), Released 0,
        Acquired 0, ReadFrom (Some 1), Released 0]"
  by (simp add: two_threads_def thread_step_def thread0_def demo_proxy_def demo_collab_def
      world1_def world0_def ImageOpener_def acquire_def release_def Let_def)

end
